theory Spec2Isabelle
  imports Main "HOL-Library.Word"
begin

unbundle bit_operations_syntax

section \<open>The USB device of Zhele: data\<close>

text \<open>
  The development follows \<^verbatim>\<open>DeviceBase\<close> of the USB device header: the device
  descriptor, \<^verbatim>\<open>FillDescriptor\<close>, \<^verbatim>\<open>Reset\<close>, \<^verbatim>\<open>Handler\<close> (the endpoint-0 control
  engine) and \<^verbatim>\<open>CommonHandler\<close> (the interrupt entry). The class is a template with
  static members only, so its template arguments are a record that every function takes,
  and the mutable state (the peripheral's registers, \<^verbatim>\<open>TempAddressStorage\<close>, what the
  handler reads of endpoint 0) is a record that is passed and returned. Calls into code
  that is not part of the header (endpoint 0, the configurations, the other endpoints'
  handlers, the interrupt controller) are appended to a trace in the order they are made.
\<close>

type_synonym uint8_t = "8 word"
type_synonym uint16_t = "16 word"

text \<open>
  Modelled from the spec: the enumerations \<^verbatim>\<open>EndpointStatus\<close> and
  \<^verbatim>\<open>EndpointDirection\<close> are declared in the endpoint headers, which are not among the
  sources. The spec lists the hardware status of an endpoint direction as Disabled, Stall,
  NAK or Valid, and the directions In and Out.
\<close>

datatype EndpointStatus = Disable | Stall | Nak | Valid

datatype EndpointDirection = In | Out

text \<open>
  Modelled from the spec: \<^verbatim>\<open>SetupPacket\<close> is declared in the endpoint headers, which
  are not among the sources. The spec gives its 8 bytes: requestType(1), request(1),
  value(2), index(2), length(2). \<^verbatim>\<open>Handler\<close> overlays the struct on the receive buffer
  of endpoint 0, so the buffer is kept as the struct.
\<close>

record SetupPacket =
  setup_RequestType :: uint8_t
  setup_Request :: uint8_t
  setup_Value :: uint16_t
  setup_Index :: uint16_t
  setup_Length :: uint16_t

text \<open>
  Modelled from the spec: the enumerators of \<^verbatim>\<open>StandartRequestCode\<close> are declared in
  a header that is not among the sources; the request byte is decoded with the request
  codes of the USB standard. Every code without a \<^verbatim>\<open>case\<close> label of its own in
  \<^verbatim>\<open>Handler\<close> is \<open>OtherRequest\<close>.
\<close>

datatype StandartRequestCode =
  GetStatus | SetAddress | GetDescriptor | SetConfiguration | OtherRequest

definition StandartRequestCode_of :: "uint8_t \<Rightarrow> StandartRequestCode" where
  "StandartRequestCode_of r =
     (if r = 0 then GetStatus
      else if r = 5 then SetAddress
      else if r = 6 then GetDescriptor
      else if r = 9 then SetConfiguration
      else OtherRequest)"

text \<open>
  Modelled from the spec: the enumerators of \<^verbatim>\<open>GetDescriptorParameter\<close> are declared
  in a header that is not among the sources. \<^verbatim>\<open>Handler\<close> casts the whole 16-bit value
  field to the enumeration, so an enumerator is the descriptor type of the USB standard in
  the high byte (device 1, configuration 2, HID report 0x22) over a zero low byte. Every
  other value takes the \<^verbatim>\<open>default\<close> label.
\<close>

datatype GetDescriptorParameter =
  DeviceDescriptor | ConfigurationDescriptor | HidReportDescriptor | OtherDescriptor

definition GetDescriptorParameter_of :: "uint16_t \<Rightarrow> GetDescriptorParameter" where
  "GetDescriptorParameter_of v =
     (if v = 0x0100 then DeviceDescriptor
      else if v = 0x0200 then ConfigurationDescriptor
      else if v = 0x2200 then HidReportDescriptor
      else OtherDescriptor)"

text \<open>
  The device descriptor, field by field as the packed struct declares it.
  \<^verbatim>\<open>DescriptorType\<close> and \<^verbatim>\<open>DeviceClass\<close> are one-byte enumerations (the struct is
  18 bytes long).
\<close>

record DeviceDescriptor =
  Length :: uint8_t
  Type :: uint8_t
  UsbVersion :: uint16_t
  Class :: uint8_t
  SubClass :: uint8_t
  Protocol :: uint8_t
  MaxPacketSize :: uint8_t
  VendorId :: uint16_t
  ProductId :: uint16_t
  DeviceReleaseNumber :: uint16_t
  ManufacturerStringIndex :: uint8_t
  ProductStringIndex :: uint8_t
  SerialNumberStringIndex :: uint8_t
  ConfigurationsCount :: uint8_t

text \<open>
  Modelled from the spec: \<^verbatim>\<open>DescriptorType::Device\<close> is declared in a header that
  is not among the sources; it is the type code 1 of the USB standard.
\<close>

definition DescriptorType_Device :: uint8_t where
  "DescriptorType_Device = 1"

text \<open>
  Modelled from the spec: the configuration classes are not among the sources. A
  configuration is kept as far as the device uses it. \<open>Descriptor\<close> is the byte stream
  that the configuration's \<^verbatim>\<open>FillDescriptor\<close> composes (configuration header, then the
  interfaces with their endpoints), its length being the size that function returns;
  \<open>HidReport_Data\<close> is the opaque report blob \<^verbatim>\<open>HidReport::Data\<close>; \<open>Endpoints\<close> are
  the endpoints it declares, for the dispatch table.
\<close>

record Configuration =
  Descriptor :: "uint8_t list"
  HidReport_Data :: "uint8_t list"
  Endpoints :: "(uint8_t \<times> EndpointDirection) list"

text \<open>The template arguments of \<^verbatim>\<open>DeviceBase\<close> that the code below reads.\<close>

record DeviceBase =
  p_UsbVersion :: uint16_t
  p_Class :: uint8_t
  p_SubClass :: uint8_t
  p_Protocol :: uint8_t
  p_VendorId :: uint16_t
  p_ProductId :: uint16_t
  p_DeviceReleaseNumber :: uint16_t
  Ep0_MaxPacketSize :: uint8_t
  Configurations :: "Configuration list"

text \<open>What the device does to its collaborators and registers, in order.\<close>

datatype event =
    Write_CNTR uint16_t
  | Write_ISTR uint16_t
  | Write_BTABLE uint16_t
  | Write_DADDR uint16_t
  | Ep0_Reset_call
  | Configuration_Reset_call nat
  | Ep0_ClearCtrRx_call
  | Ep0_ClearCtrTx_call
  | Ep0_SendData_call "uint8_t list"
  | Ep0_SetTxStatus_call EndpointStatus
  | Ep0_SetRxStatus_call EndpointStatus
  | Pc7_Toggle_call
  | Endpoint_Handler_call uint8_t EndpointDirection
  | NVIC_ClearPendingIRQ_call

text \<open>
  Where the C++ has no defined behaviour, or does not compile, the model stops with a
  fault instead of inventing a value.
\<close>

datatype fault =
    ScratchOverflow
  | NoSuchType
  | UnregisteredEndpoint

record usb =
  CNTR :: uint16_t
  ISTR :: uint16_t
  BTABLE :: uint16_t
  DADDR :: uint16_t
  TempAddressStorage :: uint8_t
  Ep0_Reg :: uint16_t
  Ep0_RxBuffer :: SetupPacket
  trace :: "event list"

section \<open>Registers and collaborators\<close>

text \<open>
  Modelled from the spec: the bit masks of the peripheral's registers come from the
  vendor's device header, which is not among the sources. The spec names the bits
  (reset detected, transfer complete, endpoint-id field, direction flag, the enable flag
  and the 7-bit address field of the device-address register, the receive-complete,
  setup and transmit-complete flags of an endpoint register); the values are those of
  the full-speed USB peripheral of the STM32 family, whose registers are 16 bits wide.
\<close>

definition USB_CNTR_CTRM :: uint16_t where "USB_CNTR_CTRM = 0x8000"
definition USB_CNTR_RESETM :: uint16_t where "USB_CNTR_RESETM = 0x0400"
definition USB_ISTR_CTR :: uint16_t where "USB_ISTR_CTR = 0x8000"
definition USB_ISTR_RESET :: uint16_t where "USB_ISTR_RESET = 0x0400"
definition USB_ISTR_DIR :: uint16_t where "USB_ISTR_DIR = 0x0010"
definition USB_ISTR_EP_ID :: uint16_t where "USB_ISTR_EP_ID = 0x000F"
definition USB_DADDR_EF :: uint16_t where "USB_DADDR_EF = 0x0080"
definition USB_DADDR_ADD :: uint16_t where "USB_DADDR_ADD = 0x007F"
definition USB_EP_CTR_RX :: uint16_t where "USB_EP_CTR_RX = 0x8000"
definition USB_EP_SETUP :: uint16_t where "USB_EP_SETUP = 0x0800"
definition USB_EP_CTR_TX :: uint16_t where "USB_EP_CTR_TX = 0x0080"

definition call :: "event \<Rightarrow> usb \<Rightarrow> usb" where
  "call e s = s\<lparr>trace := trace s @ [e]\<rparr>"

text \<open>Stores to the memory-mapped registers (\<^verbatim>\<open>_Regs()->CNTR = v\<close> and the like).\<close>

definition set_CNTR :: "uint16_t \<Rightarrow> usb \<Rightarrow> usb" where
  "set_CNTR v s = call (Write_CNTR v) (s\<lparr>CNTR := v\<rparr>)"

definition set_ISTR :: "uint16_t \<Rightarrow> usb \<Rightarrow> usb" where
  "set_ISTR v s = call (Write_ISTR v) (s\<lparr>ISTR := v\<rparr>)"

definition set_BTABLE :: "uint16_t \<Rightarrow> usb \<Rightarrow> usb" where
  "set_BTABLE v s = call (Write_BTABLE v) (s\<lparr>BTABLE := v\<rparr>)"

definition set_DADDR :: "uint16_t \<Rightarrow> usb \<Rightarrow> usb" where
  "set_DADDR v s = call (Write_DADDR v) (s\<lparr>DADDR := v\<rparr>)"

text \<open>
  Modelled from the spec: the endpoint-0 base class \<^verbatim>\<open>_Ep0\<close> is not among the sources.
  Its operations are recorded as calls. Clearing a completion flag also clears that bit of
  the endpoint register the handler reads (the spec: ``clear the transmit-complete
  condition''); what the other operations do to the endpoint's hardware is left to the
  endpoint and is not part of the state.
\<close>

definition Ep0_Reset :: "usb \<Rightarrow> usb" where
  "Ep0_Reset s = call Ep0_Reset_call s"

definition Ep0_ClearCtrRx :: "usb \<Rightarrow> usb" where
  "Ep0_ClearCtrRx s =
     call Ep0_ClearCtrRx_call (s\<lparr>Ep0_Reg := Ep0_Reg s AND NOT USB_EP_CTR_RX\<rparr>)"

definition Ep0_ClearCtrTx :: "usb \<Rightarrow> usb" where
  "Ep0_ClearCtrTx s =
     call Ep0_ClearCtrTx_call (s\<lparr>Ep0_Reg := Ep0_Reg s AND NOT USB_EP_CTR_TX\<rparr>)"

definition Ep0_SendData :: "uint8_t list \<Rightarrow> usb \<Rightarrow> usb" where
  "Ep0_SendData payload s = call (Ep0_SendData_call payload) s"

definition Ep0_SetTxStatus :: "EndpointStatus \<Rightarrow> usb \<Rightarrow> usb" where
  "Ep0_SetTxStatus st s = call (Ep0_SetTxStatus_call st) s"

definition Ep0_SetRxStatus :: "EndpointStatus \<Rightarrow> usb \<Rightarrow> usb" where
  "Ep0_SetRxStatus st s = call (Ep0_SetRxStatus_call st) s"

text \<open>
  The fold \<^verbatim>\<open>(_Configurations::Reset(), ...)\<close>: one reset call per declared
  configuration, in declaration order.
\<close>

definition Configurations_Reset :: "DeviceBase \<Rightarrow> usb \<Rightarrow> usb" where
  "Configurations_Reset dev s =
     s\<lparr>trace := trace s @ map Configuration_Reset_call [0 ..< length (Configurations dev)]\<rparr>"

text \<open>
  Modelled from the spec: the type-list utilities are not among the sources.
  \<^verbatim>\<open>GetType<N, List>\<close> selects the N-th type of a type list (the spec's ordered list
  of configurations). With N out of range the C++ does not compile; the model makes that
  a fault.
\<close>

definition GetType :: "nat \<Rightarrow> 'a list \<Rightarrow> fault + 'a" where
  "GetType n xs = (if n < length xs then Inr (xs ! n) else Inl NoSuchType)"

text \<open>
  Modelled from the spec: the configuration's \<^verbatim>\<open>FillDescriptor\<close> is not among the
  sources. It composes the descriptor byte stream at the start of the buffer it is given
  and returns the total composed byte count, which \<^verbatim>\<open>Handler\<close> keeps as
  \<^verbatim>\<open>uint16_t\<close>. A descriptor longer than the buffer is written past its end: a fault.
\<close>

definition Configuration_FillDescriptor ::
  "Configuration \<Rightarrow> uint8_t list \<Rightarrow> fault + (uint8_t list \<times> uint16_t)" where
  "Configuration_FillDescriptor c buf =
     (if length (Descriptor c) \<le> length buf
      then Inr (Descriptor c @ drop (length (Descriptor c)) buf, of_nat (length (Descriptor c)))
      else Inl ScratchOverflow)"

section \<open>The device\<close>

text \<open>The bytes of an object on the little-endian target: low byte first.\<close>

definition bytes_of_uint16 :: "uint16_t \<Rightarrow> uint8_t list" where
  "bytes_of_uint16 w = [ucast w, ucast (drop_bit 8 w)]"

text \<open>The object representation of the packed struct: the fields in order, no padding.\<close>

definition bytes_of_DeviceDescriptor :: "DeviceDescriptor \<Rightarrow> uint8_t list" where
  "bytes_of_DeviceDescriptor d =
     [Length d, Type d] @ bytes_of_uint16 (UsbVersion d) @
     [Class d, SubClass d, Protocol d, MaxPacketSize d] @
     bytes_of_uint16 (VendorId d) @ bytes_of_uint16 (ProductId d) @
     bytes_of_uint16 (DeviceReleaseNumber d) @
     [ManufacturerStringIndex d, ProductStringIndex d, SerialNumberStringIndex d,
      ConfigurationsCount d]"

text \<open>
  \<^verbatim>\<open>FillDescriptor\<close>: the designated initialisers, with the default member
  initialisers (length 18, type Device, string indexes 0) for the fields it leaves out.
  \<^verbatim>\<open>sizeof...(_Configurations)\<close> is stored in a byte.
\<close>

definition FillDescriptor :: "DeviceBase \<Rightarrow> DeviceDescriptor" where
  "FillDescriptor dev =
     \<lparr>Length = 18,
      Type = DescriptorType_Device,
      UsbVersion = p_UsbVersion dev,
      Class = p_Class dev,
      SubClass = p_SubClass dev,
      Protocol = p_Protocol dev,
      MaxPacketSize = Ep0_MaxPacketSize dev,
      VendorId = p_VendorId dev,
      ProductId = p_ProductId dev,
      DeviceReleaseNumber = p_DeviceReleaseNumber dev,
      ManufacturerStringIndex = 0,
      ProductStringIndex = 0,
      SerialNumberStringIndex = 0,
      ConfigurationsCount = of_nat (length (Configurations dev))\<rparr>"

definition sizeof_DeviceDescriptor :: nat where
  "sizeof_DeviceDescriptor = 18"

text \<open>\<^verbatim>\<open>Reset\<close>, statement by statement.\<close>

definition Reset :: "DeviceBase \<Rightarrow> usb \<Rightarrow> usb" where
  "Reset dev s =
     (let s = set_CNTR (USB_CNTR_CTRM OR USB_CNTR_RESETM) s;
          s = set_ISTR 0 s;
          s = Ep0_Reset s;
          s = Configurations_Reset dev s;
          s = set_BTABLE 0 s
      in set_DADDR USB_DADDR_EF s)"

text \<open>
  The inner \<^verbatim>\<open>switch\<close> of \<^verbatim>\<open>Handler\<close>, on the value field cast to
  \<^verbatim>\<open>GetDescriptorParameter\<close>. The responses are clamped to the requested length.
\<close>

definition GetDescriptor_switch :: "DeviceBase \<Rightarrow> SetupPacket \<Rightarrow> usb \<Rightarrow> fault + usb" where
  "GetDescriptor_switch dev setup s =
     (case GetDescriptorParameter_of (setup_Value setup) of
        DeviceDescriptor \<Rightarrow>
          (let tempDeviceDescriptor = FillDescriptor dev
           in Inr (Ep0_SendData
                (take (if unat (setup_Length setup) < sizeof_DeviceDescriptor
                       then unat (setup_Length setup) else sizeof_DeviceDescriptor)
                      (bytes_of_DeviceDescriptor tempDeviceDescriptor)) s))
      | ConfigurationDescriptor \<Rightarrow>
          (case GetType 0 (Configurations dev) of
             Inl f \<Rightarrow> Inl f
           | Inr c \<Rightarrow>
               (case Configuration_FillDescriptor c (replicate 64 0) of
                  Inl f \<Rightarrow> Inl f
                | Inr (temp, size') \<Rightarrow>
                    Inr (Ep0_SendData
                      (take (unat (if setup_Length setup < size' then setup_Length setup else size'))
                            temp) s)))
      | HidReportDescriptor \<Rightarrow>
          (case GetType 0 (Configurations dev) of
             Inl f \<Rightarrow> Inl f
           | Inr c \<Rightarrow>
               (let size' = (of_nat (length (HidReport_Data c)) :: uint16_t)
                in Inr (Ep0_SendData
                     (take (unat (if setup_Length setup < size' then setup_Length setup else size'))
                           (HidReport_Data c)) s)))
      | OtherDescriptor \<Rightarrow> Inr (Ep0_SetTxStatus Stall s))"

text \<open>
  The outer \<^verbatim>\<open>switch\<close>, on the request code. The \<^verbatim>\<open>SetConfiguration\<close> case has no
  \<^verbatim>\<open>break\<close>: control runs on into the \<^verbatim>\<open>default\<close> label.
\<close>

definition Request_switch :: "DeviceBase \<Rightarrow> SetupPacket \<Rightarrow> usb \<Rightarrow> fault + usb" where
  "Request_switch dev setup s =
     (case StandartRequestCode_of (setup_Request setup) of
        GetStatus \<Rightarrow> Inr (Ep0_SendData (bytes_of_uint16 0) s)
      | SetAddress \<Rightarrow>
          (let s = s\<lparr>TempAddressStorage := ucast (setup_Value setup)\<rparr>
           in Inr (Ep0_SendData [] s))
      | GetDescriptor \<Rightarrow> GetDescriptor_switch dev setup s
      | SetConfiguration \<Rightarrow>
          (let s = Ep0_SendData [] s
           in Inr (Ep0_SetTxStatus Stall s))
      | OtherRequest \<Rightarrow> Inr (Ep0_SetTxStatus Stall s))"

text \<open>The first \<^verbatim>\<open>if\<close> of \<^verbatim>\<open>Handler\<close>: a receive has completed on endpoint 0.\<close>

definition Handler_rx :: "DeviceBase \<Rightarrow> usb \<Rightarrow> fault + usb" where
  "Handler_rx dev s =
     (if Ep0_Reg s AND USB_EP_CTR_RX \<noteq> 0 then
        (let s = Ep0_ClearCtrRx s
         in case (if Ep0_Reg s AND USB_EP_SETUP \<noteq> 0
                  then Request_switch dev (Ep0_RxBuffer s) s
                  else Inr s) of
              Inl f \<Rightarrow> Inl f
            | Inr s \<Rightarrow> Inr (Ep0_SetRxStatus Valid s))
      else Inr s)"

text \<open>The second \<^verbatim>\<open>if\<close> of \<^verbatim>\<open>Handler\<close>: a transmit has completed on endpoint 0.\<close>

definition Handler_tx :: "usb \<Rightarrow> usb" where
  "Handler_tx s =
     (if Ep0_Reg s AND USB_EP_CTR_TX \<noteq> 0 then
        (let s = Ep0_ClearCtrTx s;
             s = (if TempAddressStorage s \<noteq> 0 then
                    (let s = set_DADDR
                               (USB_DADDR_EF OR (ucast (TempAddressStorage s) AND USB_DADDR_ADD)) s
                     in s\<lparr>TempAddressStorage := 0\<rparr>)
                  else s)
         in Ep0_SetRxStatus Valid s)
      else s)"

definition Handler :: "DeviceBase \<Rightarrow> usb \<Rightarrow> fault + usb" where
  "Handler dev s =
     (case Handler_rx dev s of
        Inl f \<Rightarrow> Inl f
      | Inr s \<Rightarrow> Inr (Handler_tx s))"

text \<open>
  Modelled from the spec: \<^verbatim>\<open>EndpointHandlers\<close> is not among the sources. The spec's
  dispatch table maps (endpoint number, direction) to the handler of that endpoint;
  endpoint 0 is served by the control engine, which takes the place of the endpoint-0 type
  in the table; the handlers of the other endpoints are outside the device and are
  recorded as calls; an endpoint outside the registered set is a contract violation.
\<close>

definition EpHandlers_Handle ::
  "DeviceBase \<Rightarrow> uint8_t \<Rightarrow> EndpointDirection \<Rightarrow> usb \<Rightarrow> fault + usb" where
  "EpHandlers_Handle dev endpoint dir s =
     (if endpoint = 0 then Handler dev s
      else if (endpoint, dir) \<in> set (concat (map Endpoints (Configurations dev)))
      then Inr (call (Endpoint_Handler_call endpoint dir) s)
      else Inl UnregisteredEndpoint)"

text \<open>\<^verbatim>\<open>CommonHandler\<close>, the interrupt entry.\<close>

definition CommonHandler :: "DeviceBase \<Rightarrow> usb \<Rightarrow> fault + usb" where
  "CommonHandler dev s =
     (let s = (if ISTR s AND USB_ISTR_RESET \<noteq> 0 then Reset dev s else s)
      in case (if ISTR s AND USB_ISTR_CTR \<noteq> 0 then
                 (let endpoint = (ucast (ISTR s AND USB_ISTR_EP_ID) :: uint8_t);
                      s = call Pc7_Toggle_call s
                  in EpHandlers_Handle dev endpoint
                       (if ISTR s AND USB_ISTR_DIR \<noteq> 0 then In else Out) s)
               else Inr s) of
           Inl f \<Rightarrow> Inl f
         | Inr s \<Rightarrow> Inr (call NVIC_ClearPendingIRQ_call s))"

section \<open>Observing a handler\<close>

text \<open>The calls and register writes made between two states.\<close>

definition events_since :: "usb \<Rightarrow> usb \<Rightarrow> event list" where
  "events_since s s' = drop (length (trace s)) (trace s')"

text \<open>The calls and register writes of a handler that was entered in state \<open>s\<close>.\<close>

definition calls_of :: "usb \<Rightarrow> fault + usb \<Rightarrow> fault + event list" where
  "calls_of s r = (case r of Inl f \<Rightarrow> Inl f | Inr s' \<Rightarrow> Inr (events_since s s'))"

text \<open>Reading a register of the state a handler returns.\<close>

definition observe :: "(usb \<Rightarrow> 'a) \<Rightarrow> fault + usb \<Rightarrow> fault + 'a" where
  "observe f r = (case r of Inl e \<Rightarrow> Inl e | Inr s' \<Rightarrow> Inr (f s'))"

definition ends_with :: "event \<Rightarrow> event list \<Rightarrow> bool" where
  "ends_with e tr = (tr \<noteq> [] \<and> last tr = e)"

text \<open>\<open>a\<close> is in the trace ahead of the first \<open>b\<close>, and \<open>b\<close> is in the trace.\<close>

definition happens_before :: "event \<Rightarrow> event \<Rightarrow> event list \<Rightarrow> bool" where
  "happens_before a b tr = (b \<in> set tr \<and> a \<in> set (takeWhile (\<lambda>e. e \<noteq> b) tr))"

text \<open>
  The two sides of \<^verbatim>\<open>Handler\<close>. Receive side: acknowledging the receive, staging a
  response, stalling the transmit direction. Transmit side: acknowledging the transmit and
  committing the device address. Re-arming the receive direction ends both.
\<close>

fun receive_side :: "event \<Rightarrow> bool" where
  "receive_side Ep0_ClearCtrRx_call = True"
| "receive_side (Ep0_SendData_call payload) = True"
| "receive_side (Ep0_SetTxStatus_call st) = True"
| "receive_side e = False"

fun transmit_side :: "event \<Rightarrow> bool" where
  "transmit_side Ep0_ClearCtrTx_call = True"
| "transmit_side (Write_DADDR v) = True"
| "transmit_side e = False"


text \<open>
  A SETUP packet with request code \<open>r\<close> waits on endpoint 0: the receive-complete and
  setup flags that \<^verbatim>\<open>Handler\<close> tests are set.
\<close>

definition SETUP_received :: "usb \<Rightarrow> StandartRequestCode \<Rightarrow> bool" where
  "SETUP_received s r =
     (Ep0_Reg s AND USB_EP_CTR_RX \<noteq> 0 \<and> Ep0_Reg s AND USB_EP_SETUP \<noteq> 0 \<and>
      StandartRequestCode_of (setup_Request (Ep0_RxBuffer s)) = r)"

definition GetDescriptor_received :: "usb \<Rightarrow> GetDescriptorParameter \<Rightarrow> bool" where
  "GetDescriptor_received s d =
     (SETUP_received s GetDescriptor \<and>
      GetDescriptorParameter_of (setup_Value (Ep0_RxBuffer s)) = d)"

definition transmit_completed :: "usb \<Rightarrow> bool" where
  "transmit_completed s = (Ep0_Reg s AND USB_EP_CTR_TX \<noteq> 0)"

text \<open>
  The static configurations that \<^verbatim>\<open>Handler\<close> compiles and runs with: there is a
  first configuration, and its descriptor fits the 64-byte scratch buffer.
\<close>

definition scratch_fits :: "DeviceBase \<Rightarrow> bool" where
  "scratch_fits dev =
     (case Configurations dev of [] \<Rightarrow> False | c # cs \<Rightarrow> length (Descriptor c) \<le> 64)"

section \<open>Interrupts over time\<close>

text \<open>
  Between two interrupts the hardware owns the interrupt status register, the endpoint-0
  register and the receive buffer; the device address, the control register and
  \<^verbatim>\<open>TempAddressStorage\<close> are only written by the code. An interrupt is what the hardware
  has put there when \<^verbatim>\<open>CommonHandler\<close> is entered.
\<close>

record irq =
  irq_ISTR :: uint16_t
  irq_Ep0_Reg :: uint16_t
  irq_RxBuffer :: SetupPacket

definition hw_event :: "irq \<Rightarrow> usb \<Rightarrow> usb" where
  "hw_event i s = s\<lparr>ISTR := irq_ISTR i, Ep0_Reg := irq_Ep0_Reg i, Ep0_RxBuffer := irq_RxBuffer i\<rparr>"

fun run :: "DeviceBase \<Rightarrow> irq list \<Rightarrow> usb \<Rightarrow> fault + usb" where
  "run dev [] s = Inr s"
| "run dev (i # is) s =
     (case CommonHandler dev (hw_event i s) of
        Inl f \<Rightarrow> Inl f
      | Inr s' \<Rightarrow> run dev is s')"

text \<open>The interrupt is routed to endpoint 0: no bus reset, a transfer completed there.\<close>

definition routed_to_Ep0 :: "irq \<Rightarrow> bool" where
  "routed_to_Ep0 i =
     (irq_ISTR i AND USB_ISTR_RESET = 0 \<and> irq_ISTR i AND USB_ISTR_CTR \<noteq> 0 \<and>
      irq_ISTR i AND USB_ISTR_EP_ID = 0)"

definition dispatches_SetAddress :: "irq \<Rightarrow> bool" where
  "dispatches_SetAddress i =
     (routed_to_Ep0 i \<and> irq_Ep0_Reg i AND USB_EP_CTR_RX \<noteq> 0 \<and>
      irq_Ep0_Reg i AND USB_EP_SETUP \<noteq> 0 \<and>
      StandartRequestCode_of (setup_Request (irq_RxBuffer i)) = SetAddress)"

definition completes_transmit :: "irq \<Rightarrow> bool" where
  "completes_transmit i = (routed_to_Ep0 i \<and> irq_Ep0_Reg i AND USB_EP_CTR_TX \<noteq> 0)"

text \<open>
  The spec's interval, as a two-state machine over the interrupts: the status stage of a
  SetAddress is pending from the interrupt that dispatches the request until the next
  interrupt that handles a transmit-complete on endpoint 0.
\<close>

fun status_stage_pending :: "bool \<Rightarrow> irq list \<Rightarrow> bool" where
  "status_stage_pending p [] = p"
| "status_stage_pending p (i # is) =
     status_stage_pending
       (if completes_transmit i then False
        else if dispatches_SetAddress i then True
        else p) is"

section \<open>A device to compute with\<close>

text \<open>
  The device of the spec's scenario: vendor 0x1234, product 0x5678, USB 2.00, one
  configuration with one endpoint.
\<close>

definition example_Configuration :: Configuration where
  "example_Configuration =
     \<lparr>Descriptor = [9, 2, 9, 0, 1, 1, 0, 0x80, 50],
      HidReport_Data = [0x05, 0x01, 0x09, 0x06, 0xC0],
      Endpoints = [(1, In)]\<rparr>"

definition example_DeviceBase :: DeviceBase where
  "example_DeviceBase =
     \<lparr>p_UsbVersion = 0x0200, p_Class = 0, p_SubClass = 0, p_Protocol = 0,
      p_VendorId = 0x1234, p_ProductId = 0x5678, p_DeviceReleaseNumber = 0x0100,
      Ep0_MaxPacketSize = 64, Configurations = [example_Configuration]\<rparr>"

text \<open>
  A SETUP packet has arrived on endpoint 0 of a device at address \<open>addr\<close> with nothing
  pending.
\<close>

definition example_setup :: "uint16_t \<Rightarrow> uint8_t \<Rightarrow> uint16_t \<Rightarrow> uint16_t \<Rightarrow> usb" where
  "example_setup addr request val len =
     \<lparr>CNTR = 0x8400, ISTR = 0x8010, BTABLE = 0, DADDR = 0x80 OR addr,
      TempAddressStorage = 0, Ep0_Reg = 0x8800,
      Ep0_RxBuffer = \<lparr>setup_RequestType = 0, setup_Request = request, setup_Value = val,
                      setup_Index = 0, setup_Length = len\<rparr>,
      trace = []\<rparr>"

text \<open>The same two hardware events as interrupts: a SETUP packet, a transmission.\<close>

definition example_irq_setup :: "uint8_t \<Rightarrow> uint16_t \<Rightarrow> irq" where
  "example_irq_setup request val =
     \<lparr>irq_ISTR = 0x8010, irq_Ep0_Reg = 0x8800,
      irq_RxBuffer = \<lparr>setup_RequestType = 0, setup_Request = request, setup_Value = val,
                      setup_Index = 0, setup_Length = 0\<rparr>\<rparr>"

definition example_irq_transmitted :: irq where
  "example_irq_transmitted =
     \<lparr>irq_ISTR = 0x8000, irq_Ep0_Reg = 0x0080,
      irq_RxBuffer = \<lparr>setup_RequestType = 0, setup_Request = 0, setup_Value = 0,
                      setup_Index = 0, setup_Length = 0\<rparr>\<rparr>"

text \<open>The hardware reports that the packet staged on endpoint 0 has been transmitted.\<close>

definition example_transmitted :: "usb \<Rightarrow> usb" where
  "example_transmitted s = s\<lparr>ISTR := 0x8000, Ep0_Reg := 0x0080\<rparr>"

section \<open>Basic facts\<close>

lemmas reg_defs = USB_CNTR_CTRM_def USB_CNTR_RESETM_def USB_ISTR_CTR_def USB_ISTR_RESET_def
  USB_ISTR_DIR_def USB_ISTR_EP_ID_def USB_DADDR_EF_def USB_DADDR_ADD_def USB_EP_CTR_RX_def
  USB_EP_SETUP_def USB_EP_CTR_TX_def

lemmas prim_defs = call_def set_CNTR_def set_ISTR_def set_BTABLE_def set_DADDR_def
  Ep0_Reset_def Ep0_ClearCtrRx_def Ep0_ClearCtrTx_def Ep0_SendData_def Ep0_SetTxStatus_def
  Ep0_SetRxStatus_def Configurations_Reset_def

lemma setup_after_ClearCtrRx:
  "Ep0_Reg (Ep0_ClearCtrRx s) AND USB_EP_SETUP = Ep0_Reg s AND USB_EP_SETUP"
  by (simp add: prim_defs reg_defs and.assoc)

lemma tx_after_ClearCtrRx:
  "Ep0_Reg (Ep0_ClearCtrRx s) AND USB_EP_CTR_TX = Ep0_Reg s AND USB_EP_CTR_TX"
  by (simp add: prim_defs reg_defs and.assoc)

lemma RxBuffer_ClearCtrRx: "Ep0_RxBuffer (Ep0_ClearCtrRx s) = Ep0_RxBuffer s"
  by (simp add: prim_defs)

text \<open>The receive branch, case by case.\<close>

lemma Handler_rx_idle:
  "Ep0_Reg s AND USB_EP_CTR_RX = 0 \<Longrightarrow> Handler_rx dev s = Inr s"
  by (simp add: Handler_rx_def)

lemma Handler_rx_data:
  "Ep0_Reg s AND USB_EP_CTR_RX \<noteq> 0 \<Longrightarrow> Ep0_Reg s AND USB_EP_SETUP = 0 \<Longrightarrow>
   Handler_rx dev s = Inr (Ep0_SetRxStatus Valid (Ep0_ClearCtrRx s))"
  by (simp add: Handler_rx_def Let_def setup_after_ClearCtrRx)

lemma Handler_rx_setup:
  "Ep0_Reg s AND USB_EP_CTR_RX \<noteq> 0 \<Longrightarrow> Ep0_Reg s AND USB_EP_SETUP \<noteq> 0 \<Longrightarrow>
   Handler_rx dev s =
     (case Request_switch dev (Ep0_RxBuffer s) (Ep0_ClearCtrRx s) of
        Inl f \<Rightarrow> Inl f
      | Inr s' \<Rightarrow> Inr (Ep0_SetRxStatus Valid s'))"
  by (simp add: Handler_rx_def Let_def setup_after_ClearCtrRx RxBuffer_ClearCtrRx)

lemma Handler_rx_GetStatus:
  "SETUP_received s GetStatus \<Longrightarrow>
   Handler_rx dev s =
     Inr (Ep0_SetRxStatus Valid (Ep0_SendData [0, 0] (Ep0_ClearCtrRx s)))"
  by (simp add: SETUP_received_def Handler_rx_setup Request_switch_def bytes_of_uint16_def)

lemma Handler_rx_SetAddress:
  "SETUP_received s SetAddress \<Longrightarrow>
   Handler_rx dev s =
     Inr (Ep0_SetRxStatus Valid (Ep0_SendData []
       ((Ep0_ClearCtrRx s)\<lparr>TempAddressStorage := ucast (setup_Value (Ep0_RxBuffer s))\<rparr>)))"
  by (simp add: SETUP_received_def Handler_rx_setup Request_switch_def Let_def)

lemma Handler_rx_SetConfiguration:
  "SETUP_received s SetConfiguration \<Longrightarrow>
   Handler_rx dev s =
     Inr (Ep0_SetRxStatus Valid (Ep0_SetTxStatus Stall (Ep0_SendData [] (Ep0_ClearCtrRx s))))"
  by (simp add: SETUP_received_def Handler_rx_setup Request_switch_def Let_def)

lemma Handler_rx_OtherRequest:
  "SETUP_received s OtherRequest \<Longrightarrow>
   Handler_rx dev s = Inr (Ep0_SetRxStatus Valid (Ep0_SetTxStatus Stall (Ep0_ClearCtrRx s)))"
  by (simp add: SETUP_received_def Handler_rx_setup Request_switch_def Let_def)

lemma Handler_rx_GetDescriptor:
  "SETUP_received s GetDescriptor \<Longrightarrow>
   Handler_rx dev s =
     (case GetDescriptor_switch dev (Ep0_RxBuffer s) (Ep0_ClearCtrRx s) of
        Inl f \<Rightarrow> Inl f
      | Inr s' \<Rightarrow> Inr (Ep0_SetRxStatus Valid s'))"
  by (simp add: SETUP_received_def Handler_rx_setup Request_switch_def Let_def)

lemma Handler_rx_OtherDescriptor:
  "GetDescriptor_received s OtherDescriptor \<Longrightarrow>
   Handler_rx dev s = Inr (Ep0_SetRxStatus Valid (Ep0_SetTxStatus Stall (Ep0_ClearCtrRx s)))"
  by (simp add: GetDescriptor_received_def Handler_rx_GetDescriptor GetDescriptor_switch_def)

lemma Handler_rx_DeviceDescriptor:
  "GetDescriptor_received s DeviceDescriptor \<Longrightarrow>
   Handler_rx dev s =
     Inr (Ep0_SetRxStatus Valid
       (Ep0_SendData
          (take (min (unat (setup_Length (Ep0_RxBuffer s))) 18)
             (bytes_of_DeviceDescriptor (FillDescriptor dev)))
          (Ep0_ClearCtrRx s)))"
  by (simp add: GetDescriptor_received_def Handler_rx_GetDescriptor GetDescriptor_switch_def
      sizeof_DeviceDescriptor_def Let_def min_def)

text \<open>Bytes and the address field.\<close>

lemma unat_uint16_bound: "unat (w :: 16 word) < 65536"
  using unsigned_less [of w, where ?'a = nat] by simp

lemma unat_uint8_bound: "unat (t :: 8 word) < 256"
  using unsigned_less [of t, where ?'a = nat] by simp

lemma unat_ucast_16_8: "unat (ucast (w :: 16 word) :: 8 word) = unat w mod 256"
  by (simp add: unsigned_ucast_eq take_bit_eq_mod)

lemma unat_ucast_8_16: "unat (ucast (t :: 8 word) :: 16 word) = unat t"
  using unat_uint8_bound [of t] by (simp add: unsigned_ucast_eq take_bit_eq_mod)

lemma le_bytes: "unat (ucast (w :: 16 word) :: 8 word) + 256 * unat (ucast (drop_bit 8 w) :: 8 word) = unat w"
proof -
  have small: "unat w div 256 < 256"
    using unat_uint16_bound [of w] by simp
  have "unat (drop_bit 8 w) = drop_bit 8 (unat w)"
    by (rule unat_drop_bit_eq)
  then have "unat (drop_bit 8 w) = unat w div 256"
    by (simp only: drop_bit_eq_div) simp
  then have hi: "unat (ucast (drop_bit 8 w) :: 8 word) = unat w div 256"
    using small by (simp only: unat_ucast_16_8) simp
  have lo: "unat (ucast w :: 8 word) = unat w mod 256"
    by (rule unat_ucast_16_8)
  show ?thesis by (simp only: lo hi) simp
qed

lemma and_7F: "(x :: 16 word) AND 0x7F = take_bit 7 x"
  by (simp add: take_bit_eq_mask mask_eq_exp_minus_1)

lemma unat_address_field: "unat ((ucast (t :: 8 word) :: 16 word) AND 0x7F) = unat t mod 128"
proof -
  have "unat (take_bit 7 (ucast t :: 16 word)) = take_bit 7 (unat (ucast t :: 16 word))"
    by (rule unsigned_take_bit_eq)
  then show ?thesis
    by (simp only: and_7F unat_ucast_8_16 take_bit_eq_mod) simp
qed

lemma address_exact:
  assumes "1 \<le> unat (v :: 16 word)" "unat v \<le> 127"
  shows "(ucast (ucast v :: 8 word) :: 16 word) AND 0x7F = v"
proof -
  have "unat ((ucast (ucast v :: 8 word) :: 16 word) AND 0x7F) = unat v"
    using assms by (simp add: unat_address_field unat_ucast_16_8)
  then show ?thesis by (simp add: word_unat_eq_iff)
qed

text \<open>The bus reset.\<close>

lemma Reset_events:
  "events_since s (Reset dev s) =
     [Write_CNTR (USB_CNTR_CTRM OR USB_CNTR_RESETM), Write_ISTR 0, Ep0_Reset_call] @
     map Configuration_Reset_call [0 ..< length (Configurations dev)] @
     [Write_BTABLE 0, Write_DADDR USB_DADDR_EF]"
  by (simp add: Reset_def events_since_def prim_defs Let_def)

lemma Reset_regs:
  "CNTR (Reset dev s) = USB_CNTR_CTRM OR USB_CNTR_RESETM"
  "ISTR (Reset dev s) = 0"
  "BTABLE (Reset dev s) = 0"
  "DADDR (Reset dev s) = USB_DADDR_EF"
  "TempAddressStorage (Reset dev s) = TempAddressStorage s"
  "Ep0_Reg (Reset dev s) = Ep0_Reg s"
  "Ep0_RxBuffer (Reset dev s) = Ep0_RxBuffer s"
  by (simp_all add: Reset_def prim_defs Let_def)

lemma takeWhile_before_last:
  "b \<notin> set xs \<Longrightarrow> takeWhile (\<lambda>e. e \<noteq> b) (xs @ [b]) = xs"
  by (induction xs) auto

lemmas example_defs = example_Configuration_def example_DeviceBase_def example_setup_def
  example_transmitted_def

lemma CommonHandler_reset:
  "ISTR s AND USB_ISTR_RESET \<noteq> 0 \<Longrightarrow>
   CommonHandler dev s = Inr (call NVIC_ClearPendingIRQ_call (Reset dev s))"
  by (simp add: CommonHandler_def Reset_regs)

text \<open>The descriptor requests.\<close>

lemma unat_of_nat_uint16: "n < 65536 \<Longrightarrow> unat (of_nat n :: 16 word) = n"
  by (simp add: unat_of_nat)

lemma clamp_uint16:
  "unat (if (l :: 16 word) < sz then l else sz) = min (unat l) (unat sz)"
  by (simp add: word_less_nat_alt min_def)

lemma Handler_rx_ConfigurationDescriptor:
  assumes "GetDescriptor_received s ConfigurationDescriptor" and "Configurations dev = c # cs"
  shows "Handler_rx dev s =
     (if length (Descriptor c) \<le> 64
      then Inr (Ep0_SetRxStatus Valid
             (Ep0_SendData
                (take (min (unat (setup_Length (Ep0_RxBuffer s))) (length (Descriptor c)))
                   (Descriptor c))
                (Ep0_ClearCtrRx s)))
      else Inl ScratchOverflow)"
proof (cases "length (Descriptor c) \<le> 64")
  case True
  then have sz: "unat (of_nat (length (Descriptor c)) :: 16 word) = length (Descriptor c)"
    by (simp add: unat_of_nat_uint16)
  show ?thesis
    using assms True
    by (simp add: GetDescriptor_received_def Handler_rx_GetDescriptor GetDescriptor_switch_def
        GetType_def Configuration_FillDescriptor_def RxBuffer_ClearCtrRx clamp_uint16 sz)
next
  case False
  then show ?thesis
    using assms
    by (simp add: GetDescriptor_received_def Handler_rx_GetDescriptor GetDescriptor_switch_def
        GetType_def Configuration_FillDescriptor_def)
qed

lemma Handler_rx_HidReportDescriptor:
  assumes "GetDescriptor_received s HidReportDescriptor" and "Configurations dev = c # cs"
  shows "Handler_rx dev s =
     Inr (Ep0_SetRxStatus Valid
       (Ep0_SendData
          (take (min (unat (setup_Length (Ep0_RxBuffer s))) (length (HidReport_Data c) mod 65536))
             (HidReport_Data c))
          (Ep0_ClearCtrRx s)))"
  using assms
  by (simp add: GetDescriptor_received_def Handler_rx_GetDescriptor GetDescriptor_switch_def
      GetType_def RxBuffer_ClearCtrRx clamp_uint16 unat_of_nat Let_def)

lemma Handler_rx_no_configuration:
  assumes "GetDescriptor_received s ConfigurationDescriptor \<or> GetDescriptor_received s HidReportDescriptor"
    and "Configurations dev = []"
  shows "Handler_rx dev s = Inl NoSuchType"
  using assms
  by (auto simp add: GetDescriptor_received_def Handler_rx_GetDescriptor GetDescriptor_switch_def
      GetType_def)

lemma calls_of_Handler_rx_response:
  "calls_of s (Inr (Ep0_SetRxStatus Valid (Ep0_SendData payload (Ep0_ClearCtrRx s)))) =
     Inr [Ep0_ClearCtrRx_call, Ep0_SendData_call payload, Ep0_SetRxStatus_call Valid]"
  by (simp add: calls_of_def events_since_def prim_defs)

lemma bytes_of_FillDescriptor:
  "bytes_of_DeviceDescriptor (FillDescriptor dev) =
     [18, DescriptorType_Device,
      ucast (p_UsbVersion dev), ucast (drop_bit 8 (p_UsbVersion dev)),
      p_Class dev, p_SubClass dev, p_Protocol dev, Ep0_MaxPacketSize dev,
      ucast (p_VendorId dev), ucast (drop_bit 8 (p_VendorId dev)),
      ucast (p_ProductId dev), ucast (drop_bit 8 (p_ProductId dev)),
      ucast (p_DeviceReleaseNumber dev), ucast (drop_bit 8 (p_DeviceReleaseNumber dev)),
      0, 0, 0, of_nat (length (Configurations dev))]"
  by (simp add: bytes_of_DeviceDescriptor_def FillDescriptor_def bytes_of_uint16_def)

text \<open>What the receive branch leaves alone.\<close>

lemma Request_switch_frame:
  assumes "Request_switch dev p s = Inr s'"
  shows "CNTR s' = CNTR s \<and> ISTR s' = ISTR s \<and> BTABLE s' = BTABLE s \<and> DADDR s' = DADDR s \<and>
         Ep0_Reg s' = Ep0_Reg s \<and> Ep0_RxBuffer s' = Ep0_RxBuffer s \<and>
         TempAddressStorage s' =
           (if StandartRequestCode_of (setup_Request p) = SetAddress
            then ucast (setup_Value p) else TempAddressStorage s) \<and>
         (\<exists>ev. trace s' = trace s @ ev \<and> list_all (\<lambda>e. \<not> transmit_side e) ev)"
  using assms
  by (auto simp add: Request_switch_def GetDescriptor_switch_def prim_defs Let_def
      split: StandartRequestCode.splits GetDescriptorParameter.splits sum.splits prod.splits)

lemma Request_switch_returns:
  assumes "scratch_fits dev"
  shows "\<exists>s'. Request_switch dev p s = Inr s'"
proof -
  from assms obtain c cs where c: "Configurations dev = c # cs" "length (Descriptor c) \<le> 64"
    by (auto simp add: scratch_fits_def split: list.splits)
  then show ?thesis
    by (simp add: Request_switch_def GetDescriptor_switch_def GetType_def
        Configuration_FillDescriptor_def Let_def
        split: StandartRequestCode.splits GetDescriptorParameter.splits)
qed

lemma Handler_rx_frame:
  assumes "Handler_rx dev s = Inr s'"
  shows "CNTR s' = CNTR s \<and> ISTR s' = ISTR s \<and> BTABLE s' = BTABLE s \<and> DADDR s' = DADDR s \<and>
         Ep0_Reg s' AND USB_EP_CTR_TX = Ep0_Reg s AND USB_EP_CTR_TX \<and>
         TempAddressStorage s' =
           (if SETUP_received s SetAddress
            then ucast (setup_Value (Ep0_RxBuffer s)) else TempAddressStorage s) \<and>
         (\<exists>ev. trace s' = trace s @ ev \<and> list_all (\<lambda>e. \<not> transmit_side e) ev \<and>
            (Ep0_Reg s AND USB_EP_CTR_RX \<noteq> 0 \<longrightarrow> ends_with (Ep0_SetRxStatus_call Valid) ev))"
proof (cases "Ep0_Reg s AND USB_EP_CTR_RX = 0")
  case True
  with assms show ?thesis
    by (simp add: Handler_rx_idle SETUP_received_def)
next
  case rx: False
  show ?thesis
  proof (cases "Ep0_Reg s AND USB_EP_SETUP = 0")
    case True
    with rx assms have "s' = Ep0_SetRxStatus Valid (Ep0_ClearCtrRx s)"
      by (simp add: Handler_rx_data)
    then show ?thesis
      using True rx tx_after_ClearCtrRx [of s]
      by (simp add: SETUP_received_def prim_defs ends_with_def reg_defs and.assoc)
  next
    case su: False
    from assms rx su obtain s1 where
      s1: "Request_switch dev (Ep0_RxBuffer s) (Ep0_ClearCtrRx s) = Inr s1"
      and s': "s' = Ep0_SetRxStatus Valid s1"
      by (auto simp add: Handler_rx_setup split: sum.splits)
    from Request_switch_frame [OF s1] obtain ev where
      fr: "CNTR s1 = CNTR s" "ISTR s1 = ISTR s" "BTABLE s1 = BTABLE s" "DADDR s1 = DADDR s"
        "Ep0_Reg s1 = Ep0_Reg (Ep0_ClearCtrRx s)"
        "TempAddressStorage s1 =
           (if StandartRequestCode_of (setup_Request (Ep0_RxBuffer s)) = SetAddress
            then ucast (setup_Value (Ep0_RxBuffer s)) else TempAddressStorage s)"
      and ev: "trace s1 = trace s @ Ep0_ClearCtrRx_call # ev" "list_all (\<lambda>e. \<not> transmit_side e) ev"
      by (auto simp add: prim_defs)
    have tr: "trace s' = trace s @ (Ep0_ClearCtrRx_call # ev @ [Ep0_SetRxStatus_call Valid])"
      using ev s' by (simp add: prim_defs)
    have "list_all (\<lambda>e. \<not> transmit_side e) (Ep0_ClearCtrRx_call # ev @ [Ep0_SetRxStatus_call Valid])"
      using ev by simp
    moreover have "ends_with (Ep0_SetRxStatus_call Valid)
        (Ep0_ClearCtrRx_call # ev @ [Ep0_SetRxStatus_call Valid])"
      by (simp add: ends_with_def)
    ultimately show ?thesis
      using fr s' rx su tr tx_after_ClearCtrRx [of s]
      by (simp add: SETUP_received_def Ep0_SetRxStatus_def call_def)
  qed
qed

lemma Handler_rx_returns:
  assumes "scratch_fits dev"
  shows "\<exists>s'. Handler_rx dev s = Inr s'"
proof -
  from Request_switch_returns [OF assms] obtain s1 where
    "Request_switch dev (Ep0_RxBuffer (Ep0_ClearCtrRx s)) (Ep0_ClearCtrRx s) = Inr s1"
    by blast
  then show ?thesis
    by (simp add: Handler_rx_def Let_def)
qed

text \<open>The transmit branch.\<close>

lemma Handler_tx_idle: "\<not> transmit_completed s \<Longrightarrow> Handler_tx s = s"
  by (simp add: Handler_tx_def transmit_completed_def)


lemma Handler_tx_nothing_pending:
  "transmit_completed s \<Longrightarrow> TempAddressStorage s = 0 \<Longrightarrow>
   Handler_tx s = Ep0_SetRxStatus Valid (Ep0_ClearCtrTx s)"
  by (simp add: Handler_tx_def transmit_completed_def Let_def prim_defs)

lemma Handler_tx_frame:
  "TempAddressStorage (Handler_tx s) = (if transmit_completed s then 0 else TempAddressStorage s) \<and>
   (\<exists>ev. trace (Handler_tx s) = trace s @ ev \<and> list_all (\<lambda>e. \<not> receive_side e) ev \<and>
      (transmit_completed s \<longrightarrow> ends_with (Ep0_SetRxStatus_call Valid) ev) \<and>
      (\<not> transmit_completed s \<longrightarrow> ev = []))"
  by (simp add: Handler_tx_def transmit_completed_def Let_def prim_defs ends_with_def)

lemma events_since_append: "trace s' = trace s @ ev \<Longrightarrow> events_since s s' = ev"
  by (simp add: events_since_def)

lemma Handler_split:
  "Handler dev s = Inr s' \<longleftrightarrow> (\<exists>s1. Handler_rx dev s = Inr s1 \<and> s' = Handler_tx s1)"
  by (auto simp add: Handler_def split: sum.splits)

lemma transmit_completed_after_rx:
  "Handler_rx dev s = Inr s1 \<Longrightarrow> transmit_completed s1 = transmit_completed s"
  using Handler_rx_frame [of dev s s1] by (simp add: transmit_completed_def)



lemma Handler_events:
  assumes "Handler dev s = Inr s'"
  shows "\<exists>s1 rx tx. Handler_rx dev s = Inr s1 \<and> s' = Handler_tx s1 \<and>
           events_since s s1 = rx \<and> events_since s1 s' = tx \<and> events_since s s' = rx @ tx \<and>
           list_all (\<lambda>e. \<not> transmit_side e) rx \<and> list_all (\<lambda>e. \<not> receive_side e) tx \<and>
           (Ep0_Reg s AND USB_EP_CTR_RX \<noteq> 0 \<longrightarrow> ends_with (Ep0_SetRxStatus_call Valid) rx) \<and>
           (transmit_completed s \<longrightarrow> ends_with (Ep0_SetRxStatus_call Valid) tx) \<and>
           (\<not> transmit_completed s \<longrightarrow> tx = [])"
proof -
  from assms obtain s1 where s1: "Handler_rx dev s = Inr s1" and s': "s' = Handler_tx s1"
    by (auto simp add: Handler_split)
  from Handler_rx_frame [OF s1] obtain rx where
    rx: "trace s1 = trace s @ rx" "list_all (\<lambda>e. \<not> transmit_side e) rx"
      "Ep0_Reg s AND USB_EP_CTR_RX \<noteq> 0 \<longrightarrow> ends_with (Ep0_SetRxStatus_call Valid) rx"
    by blast
  from Handler_tx_frame [of s1] obtain tx where
    tx: "trace (Handler_tx s1) = trace s1 @ tx" "list_all (\<lambda>e. \<not> receive_side e) tx"
      "transmit_completed s1 \<longrightarrow> ends_with (Ep0_SetRxStatus_call Valid) tx"
      "\<not> transmit_completed s1 \<longrightarrow> tx = []"
    by blast
  have all: "trace s' = trace s @ (rx @ tx)"
    using rx(1) tx(1) s' by simp
  show ?thesis
    using s1 s' rx tx events_since_append [OF rx(1)] events_since_append [OF all]
      events_since_append [of "Handler_tx s1" s1 tx] transmit_completed_after_rx [OF s1]
    by auto
qed

lemma ends_with_append: "ends_with e ys \<Longrightarrow> ends_with e (xs @ ys)"
  by (simp add: ends_with_def)

lemma Handler_returns:
  "scratch_fits dev \<Longrightarrow> \<exists>s'. Handler dev s = Inr s'"
  using Handler_rx_returns [of dev s] by (auto simp add: Handler_split)

lemma Handler_ends_with:
  assumes "Handler dev s = Inr s'"
    and "Ep0_Reg s AND USB_EP_CTR_RX \<noteq> 0 \<or> transmit_completed s"
  shows "ends_with (Ep0_SetRxStatus_call Valid) (events_since s s')"
proof -
  from Handler_events [OF assms(1)] obtain rx tx where
    ev: "events_since s s' = rx @ tx"
    and rx: "Ep0_Reg s AND USB_EP_CTR_RX \<noteq> 0 \<longrightarrow> ends_with (Ep0_SetRxStatus_call Valid) rx"
    and tx: "transmit_completed s \<longrightarrow> ends_with (Ep0_SetRxStatus_call Valid) tx"
      "\<not> transmit_completed s \<longrightarrow> tx = []"
    by blast
  show ?thesis
  proof (cases "transmit_completed s")
    case True
    with tx ev show ?thesis by (simp add: ends_with_append)
  next
    case False
    with tx ev rx assms(2) show ?thesis by simp
  qed
qed

text \<open>The address commit.\<close>

lemma address_field_of_commit:
  "(USB_DADDR_EF OR (x AND USB_DADDR_ADD)) AND USB_DADDR_ADD = x AND USB_DADDR_ADD"
  by (simp add: reg_defs bit.conj_disj_distrib2 and.assoc)

lemma enable_flag_of_commit:
  "(USB_DADDR_EF OR (x AND USB_DADDR_ADD)) AND USB_DADDR_EF = USB_DADDR_EF"
  by (simp add: reg_defs bit.conj_disj_distrib2 and.assoc)

lemma DADDR_Handler_tx:
  "DADDR (Handler_tx s) =
     (if transmit_completed s \<and> TempAddressStorage s \<noteq> 0
      then USB_DADDR_EF OR (ucast (TempAddressStorage s) AND USB_DADDR_ADD)
      else DADDR s)"
  by (simp add: Handler_tx_def transmit_completed_def Let_def prim_defs)

lemma endpoint_zero:
  "(ucast (x AND USB_ISTR_EP_ID) :: uint8_t) = 0 \<longleftrightarrow> x AND USB_ISTR_EP_ID = 0"
proof -
  have "x AND USB_ISTR_EP_ID \<le> USB_ISTR_EP_ID"
    by (rule word_and_le1)
  then have "unat (x AND USB_ISTR_EP_ID) \<le> 15"
    by (simp add: word_le_nat_alt reg_defs)
  then have "unat (ucast (x AND USB_ISTR_EP_ID) :: uint8_t) = unat (x AND USB_ISTR_EP_ID)"
    by (simp add: unat_ucast_16_8)
  then show ?thesis
    by (metis unat_eq_0)
qed

lemma SetAddress_then_transmit:
  assumes sa: "SETUP_received s SetAddress"
  shows "\<exists>s1. Handler_rx dev s = Inr s1 \<and> DADDR s1 = DADDR s \<and>
           events_since s s1 =
             [Ep0_ClearCtrRx_call, Ep0_SendData_call [], Ep0_SetRxStatus_call Valid] \<and>
           TempAddressStorage s1 = ucast (setup_Value (Ep0_RxBuffer s))"
  by (simp add: Handler_rx_SetAddress [OF sa] events_since_def prim_defs)

lemma commit_exact:
  assumes "1 \<le> unat (v :: uint16_t)" "unat v \<le> 127"
  shows "(ucast v :: uint8_t) \<noteq> 0"
    and "USB_DADDR_EF OR (ucast (ucast v :: uint8_t) AND USB_DADDR_ADD) = USB_DADDR_EF OR v"
    and "(USB_DADDR_EF OR (ucast (ucast v :: uint8_t) AND USB_DADDR_ADD)) AND USB_DADDR_ADD = v"
proof -
  have e: "(ucast (ucast v :: uint8_t) :: uint16_t) AND USB_DADDR_ADD = v"
    using address_exact [OF assms] by (simp add: reg_defs)
  have "unat (ucast v :: uint8_t) = unat v"
    using assms by (simp add: unat_ucast_16_8)
  with assms show "(ucast v :: uint8_t) \<noteq> 0"
    by (metis not_one_le_zero unat_0)
  show "USB_DADDR_EF OR (ucast (ucast v :: uint8_t) AND USB_DADDR_ADD) = USB_DADDR_EF OR v"
    by (simp only: e)
  show "(USB_DADDR_EF OR (ucast (ucast v :: uint8_t) AND USB_DADDR_ADD)) AND USB_DADDR_ADD = v"
    using address_field_of_commit [of "ucast (ucast v :: uint8_t)"] by (simp only: e)
qed

text \<open>One interrupt.\<close>

lemma Handler_frame:
  assumes "Handler dev s = Inr s'"
  shows "TempAddressStorage s' =
           (if transmit_completed s then 0
            else if SETUP_received s SetAddress then ucast (setup_Value (Ep0_RxBuffer s))
            else TempAddressStorage s)"
    and "\<not> transmit_completed s \<Longrightarrow> DADDR s' = DADDR s"
proof -
  from assms obtain s1 where s1: "Handler_rx dev s = Inr s1" and s': "s' = Handler_tx s1"
    by (auto simp add: Handler_split)
  note fr = Handler_rx_frame [OF s1] and tc = transmit_completed_after_rx [OF s1]
  show "TempAddressStorage s' =
           (if transmit_completed s then 0
            else if SETUP_received s SetAddress then ucast (setup_Value (Ep0_RxBuffer s))
            else TempAddressStorage s)"
    using fr tc Handler_tx_frame [of s1] by (simp add: s')
  show "DADDR s' = DADDR s" if "\<not> transmit_completed s"
    using that fr tc by (simp add: s' DADDR_Handler_tx)
qed

lemma CommonHandler_frame:
  assumes "CommonHandler dev (hw_event i s) = Inr s'"
  shows "TempAddressStorage s' =
           (if completes_transmit i then 0
            else if dispatches_SetAddress i then ucast (setup_Value (irq_RxBuffer i))
            else TempAddressStorage s)"
    and "\<not> completes_transmit i \<Longrightarrow> irq_ISTR i AND USB_ISTR_RESET = 0 \<Longrightarrow> DADDR s' = DADDR s"
proof -
  let ?s = "hw_event i s"
  have hw: "ISTR ?s = irq_ISTR i" "Ep0_Reg ?s = irq_Ep0_Reg i" "Ep0_RxBuffer ?s = irq_RxBuffer i"
    "TempAddressStorage ?s = TempAddressStorage s" "DADDR ?s = DADDR s"
    by (simp_all add: hw_event_def)
  have goal: "TempAddressStorage s' =
           (if completes_transmit i then 0
            else if dispatches_SetAddress i then ucast (setup_Value (irq_RxBuffer i))
            else TempAddressStorage s) \<and>
        (\<not> completes_transmit i \<and> irq_ISTR i AND USB_ISTR_RESET = 0 \<longrightarrow> DADDR s' = DADDR s)"
  proof (cases "irq_ISTR i AND USB_ISTR_RESET = 0")
    case False
    with assms have "s' = call NVIC_ClearPendingIRQ_call (Reset dev ?s)"
      by (simp add: CommonHandler_reset hw)
    with False show ?thesis
      by (simp add: call_def Reset_regs hw completes_transmit_def dispatches_SetAddress_def
          routed_to_Ep0_def)
  next
    case nr: True
    show ?thesis
    proof (cases "irq_ISTR i AND USB_ISTR_CTR = 0")
      case True
      with nr assms have "s' = call NVIC_ClearPendingIRQ_call ?s"
        by (simp add: CommonHandler_def hw)
      with True show ?thesis
        by (simp add: call_def hw completes_transmit_def dispatches_SetAddress_def
            routed_to_Ep0_def)
    next
      case ctr: False
      show ?thesis
      proof (cases "irq_ISTR i AND USB_ISTR_EP_ID = 0")
        case True
        let ?p = "call Pc7_Toggle_call ?s"
        from nr ctr True assms obtain s2 where
          s2: "Handler dev ?p = Inr s2" and s': "s' = call NVIC_ClearPendingIRQ_call s2"
          by (auto simp add: CommonHandler_def hw Let_def EpHandlers_Handle_def call_def
              split: sum.splits)
        have tc: "transmit_completed ?p = completes_transmit i"
          using nr ctr True
          by (simp add: transmit_completed_def completes_transmit_def routed_to_Ep0_def call_def hw)
        have sa: "SETUP_received ?p SetAddress = dispatches_SetAddress i"
          using nr ctr True
          by (simp add: SETUP_received_def dispatches_SetAddress_def routed_to_Ep0_def call_def hw)
        have p: "TempAddressStorage ?p = TempAddressStorage s" "DADDR ?p = DADDR s"
          "Ep0_RxBuffer ?p = irq_RxBuffer i"
          by (simp_all add: call_def hw)
        have t2: "TempAddressStorage s' = TempAddressStorage s2" "DADDR s' = DADDR s2"
          by (simp_all add: s' call_def)
        show ?thesis
          using Handler_frame [OF s2] unfolding tc sa p t2 by simp
      next
        case False
        then have e: "(ucast (irq_ISTR i AND USB_ISTR_EP_ID) :: uint8_t) \<noteq> 0"
          by (simp add: endpoint_zero)
        from nr ctr e assms have
          "s' = call NVIC_ClearPendingIRQ_call
             (call (Endpoint_Handler_call (ucast (irq_ISTR i AND USB_ISTR_EP_ID))
                (if irq_ISTR i AND USB_ISTR_DIR \<noteq> 0 then In else Out))
               (call Pc7_Toggle_call ?s))"
          by (simp add: CommonHandler_def hw Let_def EpHandlers_Handle_def call_def
              split: if_splits)
        with False show ?thesis
          by (simp add: call_def hw completes_transmit_def dispatches_SetAddress_def
              routed_to_Ep0_def)
      qed
    qed
  qed
  from goal show "TempAddressStorage s' =
           (if completes_transmit i then 0
            else if dispatches_SetAddress i then ucast (setup_Value (irq_RxBuffer i))
            else TempAddressStorage s)"
    by blast
  from goal show "DADDR s' = DADDR s"
    if "\<not> completes_transmit i" "irq_ISTR i AND USB_ISTR_RESET = 0"
    using that by blast
qed

text \<open>Interrupt after interrupt.\<close>

lemma run_pending:
  assumes "run dev is s = Inr s'" and "TempAddressStorage s \<noteq> 0 \<longrightarrow> p"
    and "TempAddressStorage s' \<noteq> 0"
  shows "status_stage_pending p is"
  using assms
proof (induction "is" arbitrary: s p)
  case Nil
  then show ?case by simp
next
  case (Cons i "is")
  from Cons.prems(1) obtain s1 where
    s1: "CommonHandler dev (hw_event i s) = Inr s1" and r: "run dev is s1 = Inr s'"
    by (auto split: sum.splits)
  let ?p = "if completes_transmit i then False else if dispatches_SetAddress i then True else p"
  have "TempAddressStorage s1 \<noteq> 0 \<longrightarrow> ?p"
    using CommonHandler_frame(1) [OF s1] Cons.prems(2) by (simp split: if_splits)
  from Cons.IH [OF r this Cons.prems(3)] show ?case
    by simp
qed

text \<open>Everything a concrete interrupt unfolds to.\<close>

lemmas handler_defs = CommonHandler_def EpHandlers_Handle_def Handler_def Handler_rx_def
  Handler_tx_def Request_switch_def StandartRequestCode_of_def hw_event_def

section \<open>The bus reset (C7)\<close>

text \<open>
  C7. On a bus reset, \<^verbatim>\<open>Reset\<close> issues the reset call to endpoint 0 and one to every
  declared configuration ahead of the write that re-activates the device; that write
  stores the enable flag alone in the device-address register, so the address field is 0;
  the control register is left at the baseline mask (transfer-complete and reset
  interrupts) and the interrupt status register at zero. \<^verbatim>\<open>CommonHandler\<close> calls
  \<^verbatim>\<open>Reset\<close> when the reset flag is up.
\<close>

theorem Reset_resets_all_before_reactivation:
  "events_since s (Reset dev s) =
     [Write_CNTR (USB_CNTR_CTRM OR USB_CNTR_RESETM), Write_ISTR 0, Ep0_Reset_call] @
     map Configuration_Reset_call [0 ..< length (Configurations dev)] @
     [Write_BTABLE 0, Write_DADDR USB_DADDR_EF] \<and>
   happens_before Ep0_Reset_call (Write_DADDR USB_DADDR_EF) (events_since s (Reset dev s)) \<and>
   (\<forall>i < length (Configurations dev).
      happens_before (Configuration_Reset_call i) (Write_DADDR USB_DADDR_EF)
        (events_since s (Reset dev s))) \<and>
   DADDR (Reset dev s) = USB_DADDR_EF \<and>
   DADDR (Reset dev s) AND USB_DADDR_ADD = 0 \<and>
   DADDR (Reset dev s) AND USB_DADDR_EF \<noteq> 0 \<and>
   CNTR (Reset dev s) = USB_CNTR_CTRM OR USB_CNTR_RESETM \<and>
   ISTR (Reset dev s) = 0 \<and>
   (ISTR s AND USB_ISTR_RESET \<noteq> 0 \<longrightarrow>
      CommonHandler dev s = Inr (call NVIC_ClearPendingIRQ_call (Reset dev s)))"
proof -
  let ?pre = "[Write_CNTR (USB_CNTR_CTRM OR USB_CNTR_RESETM), Write_ISTR 0, Ep0_Reset_call] @
     map Configuration_Reset_call [0 ..< length (Configurations dev)] @ [Write_BTABLE 0]"
  let ?ev = "events_since s (Reset dev s)"
  have ev: "?ev = ?pre @ [Write_DADDR USB_DADDR_EF]"
    by (simp add: Reset_events)
  have notin: "Write_DADDR USB_DADDR_EF \<notin> set ?pre"
    by auto
  have tw: "takeWhile (\<lambda>e. e \<noteq> Write_DADDR USB_DADDR_EF) ?ev = ?pre"
    unfolding ev by (rule takeWhile_before_last [OF notin])
  have ep0: "happens_before Ep0_Reset_call (Write_DADDR USB_DADDR_EF) ?ev"
    unfolding happens_before_def tw by (simp add: ev)
  have cfg: "\<forall>i < length (Configurations dev).
      happens_before (Configuration_Reset_call i) (Write_DADDR USB_DADDR_EF) ?ev"
    unfolding happens_before_def tw by (simp add: ev)
  have field: "USB_DADDR_EF AND USB_DADDR_ADD = 0" "USB_DADDR_EF AND USB_DADDR_EF \<noteq> 0"
    by (simp_all add: reg_defs)
  show ?thesis
    using ep0 cfg field by (simp add: Reset_events Reset_regs CommonHandler_reset)
qed

theorem Reset_resets_all_before_reactivation_witness:
  "0 < length (Configurations example_DeviceBase) \<and>
   happens_before (Configuration_Reset_call 0) (Write_DADDR 0x80)
     (events_since (example_setup 5 0 0 0) (Reset example_DeviceBase (example_setup 5 0 0 0))) \<and>
   events_since (example_setup 5 0 0 0) (Reset example_DeviceBase (example_setup 5 0 0 0)) =
     [Write_CNTR 0x8400, Write_ISTR 0, Ep0_Reset_call, Configuration_Reset_call 0,
      Write_BTABLE 0, Write_DADDR 0x80] \<and>
   DADDR (Reset example_DeviceBase (example_setup 5 0 0 0)) = 0x80"
  using Reset_resets_all_before_reactivation [of "example_setup 5 0 0 0" example_DeviceBase]
  by (simp add: example_defs reg_defs happens_before_def)

section \<open>Requests that are rejected (C3, C4)\<close>

text \<open>
  C4. A GetDescriptor request whose value is none of the device, configuration and HID
  report descriptors makes the handler stall the transmit direction of endpoint 0, and
  the receive direction is still set to Valid afterwards, as the last call of the
  receive-complete handling.
\<close>

theorem unsupported_descriptor_stalls_and_rearms:
  assumes "GetDescriptor_received s OtherDescriptor"
  shows "calls_of s (Handler_rx dev s) =
           Inr [Ep0_ClearCtrRx_call, Ep0_SetTxStatus_call Stall, Ep0_SetRxStatus_call Valid] \<and>
         (\<forall>s'. Handler_rx dev s = Inr s' \<longrightarrow>
            happens_before (Ep0_SetTxStatus_call Stall) (Ep0_SetRxStatus_call Valid)
              (events_since s s'))"
  using assms
  by (simp add: Handler_rx_OtherDescriptor calls_of_def events_since_def prim_defs
      happens_before_def)

theorem unsupported_descriptor_stalls_and_rearms_witness:
  "GetDescriptor_received (example_setup 5 6 0x0300 255) OtherDescriptor \<and>
   calls_of (example_setup 5 6 0x0300 255)
     (Handler_rx example_DeviceBase (example_setup 5 6 0x0300 255)) =
     Inr [Ep0_ClearCtrRx_call, Ep0_SetTxStatus_call Stall, Ep0_SetRxStatus_call Valid]"
proof -
  have h: "GetDescriptor_received (example_setup 5 6 0x0300 255) OtherDescriptor"
    by (simp add: GetDescriptor_received_def SETUP_received_def example_defs reg_defs
        StandartRequestCode_of_def GetDescriptorParameter_of_def)
  show ?thesis
    using h unsupported_descriptor_stalls_and_rearms [OF h, of example_DeviceBase] by simp
qed

text \<open>
  C3. A SetConfiguration request is to be acknowledged with a zero-length response and not
  stalled. The handler stages the zero-length response and then runs on into the
  \<^verbatim>\<open>default\<close> label, which stalls the transmit direction: evaluated here on a
  SetConfiguration(1) request.
\<close>

theorem SetConfiguration_falls_through_to_Stall:
  "calls_of (example_setup 5 9 1 0) (Handler_rx example_DeviceBase (example_setup 5 9 1 0)) =
     Inr [Ep0_ClearCtrRx_call, Ep0_SendData_call [], Ep0_SetTxStatus_call Stall,
          Ep0_SetRxStatus_call Valid]"
proof -
  have h: "SETUP_received (example_setup 5 9 1 0) SetConfiguration"
    by (simp add: SETUP_received_def example_defs reg_defs StandartRequestCode_of_def)
  show ?thesis
    by (simp add: Handler_rx_SetConfiguration [OF h] calls_of_def events_since_def prim_defs)
qed

section \<open>The device descriptor (C2)\<close>

text \<open>
  C2. A GetDescriptor(Device) request with requested length L is answered on endpoint 0
  with min(L, 18) bytes, the leading bytes of the packed 18-byte device descriptor built
  from the configured fields: length 18 and the type code, then the USB version, class,
  subclass, protocol and the maximal packet size of endpoint 0, the vendor id at offsets
  8 and 9 and the product id at offsets 10 and 11, each low byte first, the release
  number, three zero string indexes, and the number of declared configurations (which is
  that number itself whenever it fits a byte).
\<close>

theorem GetDescriptor_Device_response:
  assumes "GetDescriptor_received s DeviceDescriptor"
  shows "\<exists>payload.
     calls_of s (Handler_rx dev s) =
       Inr [Ep0_ClearCtrRx_call, Ep0_SendData_call payload, Ep0_SetRxStatus_call Valid] \<and>
     length payload = min (unat (setup_Length (Ep0_RxBuffer s))) 18 \<and>
     payload = take (unat (setup_Length (Ep0_RxBuffer s)))
       [18, DescriptorType_Device,
        ucast (p_UsbVersion dev), ucast (drop_bit 8 (p_UsbVersion dev)),
        p_Class dev, p_SubClass dev, p_Protocol dev, Ep0_MaxPacketSize dev,
        ucast (p_VendorId dev), ucast (drop_bit 8 (p_VendorId dev)),
        ucast (p_ProductId dev), ucast (drop_bit 8 (p_ProductId dev)),
        ucast (p_DeviceReleaseNumber dev), ucast (drop_bit 8 (p_DeviceReleaseNumber dev)),
        0, 0, 0, of_nat (length (Configurations dev))] \<and>
     unat (ucast (p_VendorId dev) :: uint8_t) +
       256 * unat (ucast (drop_bit 8 (p_VendorId dev)) :: uint8_t) = unat (p_VendorId dev) \<and>
     unat (ucast (p_ProductId dev) :: uint8_t) +
       256 * unat (ucast (drop_bit 8 (p_ProductId dev)) :: uint8_t) = unat (p_ProductId dev) \<and>
     (length (Configurations dev) < 256 \<longrightarrow>
        unat (of_nat (length (Configurations dev)) :: uint8_t) = length (Configurations dev))"
proof -
  let ?full = "bytes_of_DeviceDescriptor (FillDescriptor dev)"
  let ?n = "unat (setup_Length (Ep0_RxBuffer s))"
  have len: "length ?full = 18"
    by (simp add: bytes_of_FillDescriptor)
  have tk: "take (min ?n 18) ?full = take ?n ?full"
    using len by (simp add: min_def)
  have calls: "calls_of s (Handler_rx dev s) =
      Inr [Ep0_ClearCtrRx_call, Ep0_SendData_call (take ?n ?full), Ep0_SetRxStatus_call Valid]"
    by (simp only: Handler_rx_DeviceDescriptor [OF assms] calls_of_Handler_rx_response tk)
  have l: "length (take ?n ?full) = min ?n 18"
    using len by (simp add: min_def)
  have cnt: "length (Configurations dev) < 256 \<longrightarrow>
        unat (of_nat (length (Configurations dev)) :: uint8_t) = length (Configurations dev)"
    by (simp add: unat_of_nat)
  show ?thesis
    using calls l cnt le_bytes [of "p_VendorId dev"] le_bytes [of "p_ProductId dev"]
    by (simp only: bytes_of_FillDescriptor) blast
qed

theorem GetDescriptor_Device_response_witness:
  "GetDescriptor_received (example_setup 0 6 0x0100 64) DeviceDescriptor \<and>
   calls_of (example_setup 0 6 0x0100 64)
     (Handler_rx example_DeviceBase (example_setup 0 6 0x0100 64)) =
     Inr [Ep0_ClearCtrRx_call,
          Ep0_SendData_call
            [18, 1, 0x00, 0x02, 0, 0, 0, 64, 0x34, 0x12, 0x78, 0x56, 0x00, 0x01, 0, 0, 0, 1],
          Ep0_SetRxStatus_call Valid]"
proof -
  have h: "GetDescriptor_received (example_setup 0 6 0x0100 64) DeviceDescriptor"
    by (simp add: GetDescriptor_received_def SETUP_received_def example_defs reg_defs
        StandartRequestCode_of_def GetDescriptorParameter_of_def)
  show ?thesis
    using h GetDescriptor_Device_response [OF h, of example_DeviceBase]
    by (auto simp add: example_defs DescriptorType_Device_def)
qed

section \<open>Configuration and report descriptors (C10)\<close>

text \<open>The descriptor index is the low byte of the value field; every enumerator has it zero.\<close>

lemma nonzero_index_takes_default:
  assumes "(ucast (v :: uint16_t) :: uint8_t) \<noteq> 0"
  shows "GetDescriptorParameter_of v = OtherDescriptor"
proof -
  have "v \<noteq> 0x0100" "v \<noteq> 0x0200" "v \<noteq> 0x2200"
    using assms by auto
  then show ?thesis
    by (simp add: GetDescriptorParameter_of_def)
qed

text \<open>What the two cases of the inner \<^verbatim>\<open>switch\<close> send.\<close>

lemma first_configuration_index_zero:
  "(GetDescriptor_received s ConfigurationDescriptor \<and> Configurations dev = c # cs \<longrightarrow>
      Handler_rx dev s =
        (if length (Descriptor c) \<le> 64
         then Inr (Ep0_SetRxStatus Valid
                (Ep0_SendData
                   (take (min (unat (setup_Length (Ep0_RxBuffer s))) (length (Descriptor c)))
                      (Descriptor c))
                   (Ep0_ClearCtrRx s)))
         else Inl ScratchOverflow)) \<and>
   (GetDescriptor_received s HidReportDescriptor \<and> Configurations dev = c # cs \<longrightarrow>
      Handler_rx dev s =
        Inr (Ep0_SetRxStatus Valid
          (Ep0_SendData
             (take (min (unat (setup_Length (Ep0_RxBuffer s)))
                        (length (HidReport_Data c) mod 65536))
                (HidReport_Data c))
             (Ep0_ClearCtrRx s)))) \<and>
   ((GetDescriptor_received s ConfigurationDescriptor \<or>
     GetDescriptor_received s HidReportDescriptor) \<and> Configurations dev = c # cs \<longrightarrow>
      calls_of (s\<lparr>Ep0_RxBuffer := (Ep0_RxBuffer s)\<lparr>setup_Index := ix\<rparr>\<rparr>)
        (Handler_rx (dev\<lparr>Configurations := c # cs'\<rparr>)
           (s\<lparr>Ep0_RxBuffer := (Ep0_RxBuffer s)\<lparr>setup_Index := ix\<rparr>\<rparr>)) =
      calls_of s (Handler_rx dev s))"
proof -
  let ?s = "s\<lparr>Ep0_RxBuffer := (Ep0_RxBuffer s)\<lparr>setup_Index := ix\<rparr>\<rparr>"
  let ?dev = "dev\<lparr>Configurations := c # cs'\<rparr>"
  have rec: "GetDescriptor_received ?s d = GetDescriptor_received s d" for d
    by (simp add: GetDescriptor_received_def SETUP_received_def)
  have cfg: "Configurations ?dev = c # cs'"
    by simp
  have calls: "calls_of ?s (Inr (Ep0_SetRxStatus Valid (Ep0_SendData p (Ep0_ClearCtrRx ?s)))) =
      calls_of s (Inr (Ep0_SetRxStatus Valid (Ep0_SendData p (Ep0_ClearCtrRx s))))" for p
    by (simp only: calls_of_Handler_rx_response)
  have fault: "calls_of ?s (Inl f) = calls_of s (Inl f)" for f
    by (simp add: calls_of_def)
  have len: "setup_Length (Ep0_RxBuffer ?s) = setup_Length (Ep0_RxBuffer s)"
    by simp
  have a: "calls_of ?s (Handler_rx ?dev ?s) = calls_of s (Handler_rx dev s)"
    if r: "GetDescriptor_received s ConfigurationDescriptor" and d: "Configurations dev = c # cs"
  proof -
    from r have r': "GetDescriptor_received ?s ConfigurationDescriptor"
      by (simp only: rec)
    show ?thesis
      by (simp only: Handler_rx_ConfigurationDescriptor [OF r d]
          Handler_rx_ConfigurationDescriptor [OF r' cfg] len calls fault if_distrib [of "calls_of _"])
  qed
  have b: "calls_of ?s (Handler_rx ?dev ?s) = calls_of s (Handler_rx dev s)"
    if r: "GetDescriptor_received s HidReportDescriptor" and d: "Configurations dev = c # cs"
  proof -
    from r have r': "GetDescriptor_received ?s HidReportDescriptor"
      by (simp only: rec)
    show ?thesis
      by (simp only: Handler_rx_HidReportDescriptor [OF r d]
          Handler_rx_HidReportDescriptor [OF r' cfg] len calls)
  qed
  show ?thesis
    using a b Handler_rx_ConfigurationDescriptor [of s dev c cs]
      Handler_rx_HidReportDescriptor [of s dev c cs]
    by blast
qed

text \<open>
  Not every GetDescriptor request for a configuration or a HID report descriptor is
  answered from the first configuration whatever its descriptor index: the handler
  switches on the whole value field, so a request for descriptor type 2 or 0x22 with
  descriptor index 1 takes the \<^verbatim>\<open>default\<close> label and is stalled.
\<close>

theorem nonzero_descriptor_index_counterexample:
  "SETUP_received (example_setup 5 6 0x0201 255) GetDescriptor \<and>
   setup_Value (Ep0_RxBuffer (example_setup 5 6 0x0201 255)) = 0x0201 \<and>
   drop_bit 8 (0x0201 :: uint16_t) = 2 \<and>
   calls_of (example_setup 5 6 0x0201 255)
     (Handler_rx example_DeviceBase (example_setup 5 6 0x0201 255)) =
     Inr [Ep0_ClearCtrRx_call, Ep0_SetTxStatus_call Stall, Ep0_SetRxStatus_call Valid] \<and>
   SETUP_received (example_setup 5 6 0x2201 255) GetDescriptor \<and>
   setup_Value (Ep0_RxBuffer (example_setup 5 6 0x2201 255)) = 0x2201 \<and>
   drop_bit 8 (0x2201 :: uint16_t) = 0x22 \<and>
   calls_of (example_setup 5 6 0x2201 255)
     (Handler_rx example_DeviceBase (example_setup 5 6 0x2201 255)) =
     Inr [Ep0_ClearCtrRx_call, Ep0_SetTxStatus_call Stall, Ep0_SetRxStatus_call Valid]"
proof -
  have a: "GetDescriptor_received (example_setup 5 6 0x0201 255) OtherDescriptor"
    and b: "GetDescriptor_received (example_setup 5 6 0x2201 255) OtherDescriptor"
    by (simp_all add: GetDescriptor_received_def SETUP_received_def example_defs reg_defs
        StandartRequestCode_of_def GetDescriptorParameter_of_def)
  show ?thesis
    using a b
    by (simp add: Handler_rx_OtherDescriptor calls_of_def events_since_def prim_defs
        GetDescriptor_received_def example_setup_def)
qed

text \<open>
  C10, amended. A GetDescriptor request whose value field is the configuration or the HID
  report enumerator, which is one with descriptor index 0, is answered from the first
  declared configuration: the configuration descriptor is the one that configuration 0
  composes, into a scratch buffer of 64 bytes (a longer descriptor overruns it), and the
  report blob is the one of configuration 0; the response is clamped to the requested
  length. Neither the index field of the request nor the configurations declared after
  the first change what is sent. A GetDescriptor request with any other descriptor index
  is not answered: it is stalled.
\<close>

theorem first_configuration_answers:
  "(GetDescriptor_received s ConfigurationDescriptor \<and> Configurations dev = c # cs \<longrightarrow>
      Handler_rx dev s =
        (if length (Descriptor c) \<le> 64
         then Inr (Ep0_SetRxStatus Valid
                (Ep0_SendData
                   (take (min (unat (setup_Length (Ep0_RxBuffer s))) (length (Descriptor c)))
                      (Descriptor c))
                   (Ep0_ClearCtrRx s)))
         else Inl ScratchOverflow)) \<and>
   (GetDescriptor_received s HidReportDescriptor \<and> Configurations dev = c # cs \<longrightarrow>
      Handler_rx dev s =
        Inr (Ep0_SetRxStatus Valid
          (Ep0_SendData
             (take (min (unat (setup_Length (Ep0_RxBuffer s)))
                        (length (HidReport_Data c) mod 65536))
                (HidReport_Data c))
             (Ep0_ClearCtrRx s)))) \<and>
   ((GetDescriptor_received s ConfigurationDescriptor \<or>
     GetDescriptor_received s HidReportDescriptor) \<and> Configurations dev = c # cs \<longrightarrow>
      calls_of (s\<lparr>Ep0_RxBuffer := (Ep0_RxBuffer s)\<lparr>setup_Index := ix\<rparr>\<rparr>)
        (Handler_rx (dev\<lparr>Configurations := c # cs'\<rparr>)
           (s\<lparr>Ep0_RxBuffer := (Ep0_RxBuffer s)\<lparr>setup_Index := ix\<rparr>\<rparr>)) =
      calls_of s (Handler_rx dev s)) \<and>
   (GetDescriptor_received s ConfigurationDescriptor \<or>
    GetDescriptor_received s HidReportDescriptor \<longrightarrow>
      (ucast (setup_Value (Ep0_RxBuffer s)) :: uint8_t) = 0) \<and>
   (SETUP_received s GetDescriptor \<and>
    (ucast (setup_Value (Ep0_RxBuffer s)) :: uint8_t) \<noteq> 0 \<longrightarrow>
      calls_of s (Handler_rx dev s) =
        Inr [Ep0_ClearCtrRx_call, Ep0_SetTxStatus_call Stall, Ep0_SetRxStatus_call Valid])"
proof -
  have zero: "(ucast (setup_Value (Ep0_RxBuffer s)) :: uint8_t) = 0"
    if "GetDescriptor_received s ConfigurationDescriptor \<or>
        GetDescriptor_received s HidReportDescriptor"
  proof (rule ccontr)
    assume "(ucast (setup_Value (Ep0_RxBuffer s)) :: uint8_t) \<noteq> 0"
    then have "GetDescriptorParameter_of (setup_Value (Ep0_RxBuffer s)) = OtherDescriptor"
      by (rule nonzero_index_takes_default)
    with that show False
      by (auto simp add: GetDescriptor_received_def)
  qed
  have stall: "calls_of s (Handler_rx dev s) =
        Inr [Ep0_ClearCtrRx_call, Ep0_SetTxStatus_call Stall, Ep0_SetRxStatus_call Valid]"
    if "SETUP_received s GetDescriptor"
      and "(ucast (setup_Value (Ep0_RxBuffer s)) :: uint8_t) \<noteq> 0"
  proof -
    from that have "GetDescriptor_received s OtherDescriptor"
      by (simp add: GetDescriptor_received_def nonzero_index_takes_default)
    then show ?thesis
      by (simp add: Handler_rx_OtherDescriptor calls_of_def events_since_def prim_defs)
  qed
  show ?thesis
    using first_configuration_index_zero [of s dev c cs ix cs'] zero stall
    by blast
qed

theorem first_configuration_answers_witness:
  "GetDescriptor_received (example_setup 5 6 0x0200 4) ConfigurationDescriptor \<and>
   GetDescriptor_received (example_setup 5 6 0x2200 255) HidReportDescriptor \<and>
   Configurations example_DeviceBase = [example_Configuration] \<and>
   calls_of (example_setup 5 6 0x0200 4)
     (Handler_rx example_DeviceBase (example_setup 5 6 0x0200 4)) =
     Inr [Ep0_ClearCtrRx_call, Ep0_SendData_call [9, 2, 9, 0], Ep0_SetRxStatus_call Valid] \<and>
   calls_of (example_setup 5 6 0x2200 255)
     (Handler_rx example_DeviceBase (example_setup 5 6 0x2200 255)) =
     Inr [Ep0_ClearCtrRx_call, Ep0_SendData_call [0x05, 0x01, 0x09, 0x06, 0xC0],
          Ep0_SetRxStatus_call Valid] \<and>
   SETUP_received (example_setup 5 6 0x0203 255) GetDescriptor \<and>
   (ucast (setup_Value (Ep0_RxBuffer (example_setup 5 6 0x0203 255))) :: uint8_t) = 3 \<and>
   calls_of (example_setup 5 6 0x0203 255)
     (Handler_rx example_DeviceBase (example_setup 5 6 0x0203 255)) =
     Inr [Ep0_ClearCtrRx_call, Ep0_SetTxStatus_call Stall, Ep0_SetRxStatus_call Valid]"
proof -
  have h1: "GetDescriptor_received (example_setup 5 6 0x0200 4) ConfigurationDescriptor"
    by (simp add: GetDescriptor_received_def SETUP_received_def example_defs reg_defs
        StandartRequestCode_of_def GetDescriptorParameter_of_def)
  have h2: "GetDescriptor_received (example_setup 5 6 0x2200 255) HidReportDescriptor"
    by (simp add: GetDescriptor_received_def SETUP_received_def example_defs reg_defs
        StandartRequestCode_of_def GetDescriptorParameter_of_def)
  have c: "Configurations example_DeviceBase = [example_Configuration]"
    by (simp add: example_DeviceBase_def)
  have l1: "setup_Length (Ep0_RxBuffer (example_setup 5 6 0x0200 4)) = 4"
    and l2: "setup_Length (Ep0_RxBuffer (example_setup 5 6 0x2200 255)) = 255"
    by (simp_all add: example_setup_def)
  have h3: "SETUP_received (example_setup 5 6 0x0203 255) GetDescriptor"
    by (simp add: SETUP_received_def example_defs reg_defs StandartRequestCode_of_def)
  have i3: "(ucast (setup_Value (Ep0_RxBuffer (example_setup 5 6 0x0203 255))) :: uint8_t) = 3"
    by (simp add: example_setup_def)
  have st: "calls_of (example_setup 5 6 0x0203 255)
     (Handler_rx example_DeviceBase (example_setup 5 6 0x0203 255)) =
     Inr [Ep0_ClearCtrRx_call, Ep0_SetTxStatus_call Stall, Ep0_SetRxStatus_call Valid]"
    using h3 i3
      first_configuration_answers [of "example_setup 5 6 0x0203 255" example_DeviceBase
        example_Configuration "[]"]
    by simp
  have ans: "calls_of (example_setup 5 6 0x0200 4)
     (Handler_rx example_DeviceBase (example_setup 5 6 0x0200 4)) =
     Inr [Ep0_ClearCtrRx_call, Ep0_SendData_call [9, 2, 9, 0], Ep0_SetRxStatus_call Valid] \<and>
   calls_of (example_setup 5 6 0x2200 255)
     (Handler_rx example_DeviceBase (example_setup 5 6 0x2200 255)) =
     Inr [Ep0_ClearCtrRx_call, Ep0_SendData_call [0x05, 0x01, 0x09, 0x06, 0xC0],
          Ep0_SetRxStatus_call Valid]"
    using h1 h2 c
      first_configuration_answers [of "example_setup 5 6 0x0200 4" example_DeviceBase
        example_Configuration "[]"]
      first_configuration_answers [of "example_setup 5 6 0x2200 255" example_DeviceBase
        example_Configuration "[]"]
    by (simp add: calls_of_Handler_rx_response l1 l2 example_Configuration_def)
  show ?thesis
    using h1 h2 c h3 i3 st ans by blast
qed

section \<open>Re-arming the receive direction (C5)\<close>

text \<open>
  C5. Whenever \<^verbatim>\<open>Handler\<close> handles a completion on endpoint 0, the last thing the
  branch does is to set the receive direction back to Valid: the receive-complete branch,
  whatever was received and whatever the request code of a SETUP packet, the
  transmit-complete branch, and so the handler as a whole. With a first configuration
  whose descriptor fits the scratch buffer, the handler returns on every input.
\<close>

theorem receive_rearmed_on_every_completion:
  "(Ep0_Reg s AND USB_EP_CTR_RX \<noteq> 0 \<longrightarrow>
      (\<forall>s'. Handler_rx dev s = Inr s' \<longrightarrow>
         ends_with (Ep0_SetRxStatus_call Valid) (events_since s s')) \<and>
      (scratch_fits dev \<longrightarrow> (\<exists>s'. Handler_rx dev s = Inr s'))) \<and>
   (transmit_completed s \<longrightarrow>
      ends_with (Ep0_SetRxStatus_call Valid) (events_since s (Handler_tx s))) \<and>
   (Ep0_Reg s AND USB_EP_CTR_RX \<noteq> 0 \<or> transmit_completed s \<longrightarrow>
      (\<forall>s'. Handler dev s = Inr s' \<longrightarrow>
         ends_with (Ep0_SetRxStatus_call Valid) (events_since s s')) \<and>
      (scratch_fits dev \<longrightarrow> (\<exists>s'. Handler dev s = Inr s')))"
proof -
  have rx: "ends_with (Ep0_SetRxStatus_call Valid) (events_since s s')"
    if "Ep0_Reg s AND USB_EP_CTR_RX \<noteq> 0" and "Handler_rx dev s = Inr s'" for s'
    using Handler_rx_frame [OF that(2)] that(1) by (auto simp add: events_since_append)
  have tx: "ends_with (Ep0_SetRxStatus_call Valid) (events_since s (Handler_tx s))"
    if "transmit_completed s"
    using Handler_tx_frame [of s] that by (auto simp add: events_since_append)
  show ?thesis
    using rx tx Handler_rx_returns [of dev s] Handler_returns [of dev s]
      Handler_ends_with [of dev s]
    by blast
qed

theorem receive_rearmed_on_every_completion_witness:
  "Ep0_Reg (example_setup 5 3 0 0) AND USB_EP_CTR_RX \<noteq> 0 \<and>
   scratch_fits example_DeviceBase \<and>
   (\<exists>s'. Handler_rx example_DeviceBase (example_setup 5 3 0 0) = Inr s' \<and>
      ends_with (Ep0_SetRxStatus_call Valid) (events_since (example_setup 5 3 0 0) s')) \<and>
   transmit_completed (example_transmitted (example_setup 5 3 0 0)) \<and>
   ends_with (Ep0_SetRxStatus_call Valid)
     (events_since (example_transmitted (example_setup 5 3 0 0))
        (Handler_tx (example_transmitted (example_setup 5 3 0 0))))"
proof -
  have h1: "Ep0_Reg (example_setup 5 3 0 0) AND USB_EP_CTR_RX \<noteq> 0"
    by (simp add: example_defs reg_defs)
  have h2: "scratch_fits example_DeviceBase"
    by (simp add: scratch_fits_def example_defs)
  have h3: "transmit_completed (example_transmitted (example_setup 5 3 0 0))"
    by (simp add: transmit_completed_def example_defs reg_defs)
  show ?thesis
    using h1 h2 h3
      receive_rearmed_on_every_completion [of "example_setup 5 3 0 0" example_DeviceBase]
      receive_rearmed_on_every_completion
        [of "example_transmitted (example_setup 5 3 0 0)" example_DeviceBase]
    by blast
qed

section \<open>Order within one interrupt (C6)\<close>



section \<open>The width of the pending address (C8)\<close>

text \<open>
  C8. \<^verbatim>\<open>TempAddressStorage\<close> is a byte that is assigned the 16-bit value field of the
  SetAddress request, so it holds the requested value modulo 256; at the completion of the
  status stage the device-address register gets the enable flag and the pending address
  masked to the 7-bit address field. For a requested address from 1 to 127 the committed
  address field is the requested address.
\<close>

theorem pending_address_truncated_and_masked:
  "(SETUP_received s SetAddress \<longrightarrow>
      (\<exists>s1. Handler_rx dev s = Inr s1 \<and>
         unat (TempAddressStorage s1) = unat (setup_Value (Ep0_RxBuffer s)) mod 256)) \<and>
   (transmit_completed s \<and> TempAddressStorage s \<noteq> 0 \<longrightarrow>
      DADDR (Handler_tx s) = USB_DADDR_EF OR (ucast (TempAddressStorage s) AND USB_DADDR_ADD) \<and>
      unat (DADDR (Handler_tx s) AND USB_DADDR_ADD) = unat (TempAddressStorage s) mod 128) \<and>
   (SETUP_received s SetAddress \<and> 1 \<le> unat (setup_Value (Ep0_RxBuffer s)) \<and>
    unat (setup_Value (Ep0_RxBuffer s)) \<le> 127 \<longrightarrow>
      (\<exists>s1. Handler_rx dev s = Inr s1 \<and>
         (\<forall>s2. TempAddressStorage s2 = TempAddressStorage s1 \<and> transmit_completed s2 \<longrightarrow>
            DADDR (Handler_tx s2) = USB_DADDR_EF OR setup_Value (Ep0_RxBuffer s) \<and>
            DADDR (Handler_tx s2) AND USB_DADDR_ADD = setup_Value (Ep0_RxBuffer s))))"
proof -
  let ?v = "setup_Value (Ep0_RxBuffer s)"
  have a: "\<exists>s1. Handler_rx dev s = Inr s1 \<and> unat (TempAddressStorage s1) = unat ?v mod 256"
    if "SETUP_received s SetAddress"
    using SetAddress_then_transmit [OF that, of dev] by (auto simp add: unat_ucast_16_8)
  have b: "DADDR (Handler_tx s) = USB_DADDR_EF OR (ucast (TempAddressStorage s) AND USB_DADDR_ADD) \<and>
      unat (DADDR (Handler_tx s) AND USB_DADDR_ADD) = unat (TempAddressStorage s) mod 128"
    if "transmit_completed s" "TempAddressStorage s \<noteq> 0"
  proof -
    have d: "DADDR (Handler_tx s) =
        USB_DADDR_EF OR (ucast (TempAddressStorage s) AND USB_DADDR_ADD)"
      using that by (simp add: DADDR_Handler_tx)
    have "unat ((ucast (TempAddressStorage s) :: uint16_t) AND USB_DADDR_ADD) =
        unat (TempAddressStorage s) mod 128"
      using unat_address_field [of "TempAddressStorage s"] by (simp add: reg_defs)
    then show ?thesis
      by (simp only: d address_field_of_commit)
  qed
  have c: "\<exists>s1. Handler_rx dev s = Inr s1 \<and>
         (\<forall>s2. TempAddressStorage s2 = TempAddressStorage s1 \<and> transmit_completed s2 \<longrightarrow>
            DADDR (Handler_tx s2) = USB_DADDR_EF OR ?v \<and>
            DADDR (Handler_tx s2) AND USB_DADDR_ADD = ?v)"
    if sa: "SETUP_received s SetAddress" and r: "1 \<le> unat ?v" "unat ?v \<le> 127"
  proof -
    from SetAddress_then_transmit [OF sa, of dev] obtain s1 where
      s1: "Handler_rx dev s = Inr s1" "TempAddressStorage s1 = ucast ?v"
      by blast
    have "DADDR (Handler_tx s2) = USB_DADDR_EF OR ?v \<and>
          DADDR (Handler_tx s2) AND USB_DADDR_ADD = ?v"
      if "TempAddressStorage s2 = TempAddressStorage s1" "transmit_completed s2" for s2
      using that s1(2) commit_exact [OF r] by (simp add: DADDR_Handler_tx)
    with s1(1) show ?thesis by blast
  qed
  show ?thesis
    using a b c by blast
qed

theorem pending_address_truncated_and_masked_witness:
  "SETUP_received (example_setup 0 5 0x0185 0) SetAddress \<and>
   (\<exists>s1. Handler_rx example_DeviceBase (example_setup 0 5 0x0185 0) = Inr s1 \<and>
      TempAddressStorage s1 = 0x85 \<and>
      transmit_completed (example_transmitted s1) \<and>
      DADDR (Handler_tx (example_transmitted s1)) = 0x85) \<and>
   SETUP_received (example_setup 0 5 100 0) SetAddress \<and>
   (\<exists>s1. Handler_rx example_DeviceBase (example_setup 0 5 100 0) = Inr s1 \<and>
      transmit_completed (example_transmitted s1) \<and>
      DADDR (Handler_tx (example_transmitted s1)) AND USB_DADDR_ADD = 100)"
proof -
  let ?a = "example_setup 0 5 0x0185 0"
  let ?b = "example_setup 0 5 100 0"
  have ha: "SETUP_received ?a SetAddress" and hb: "SETUP_received ?b SetAddress"
    by (simp_all add: SETUP_received_def example_defs reg_defs StandartRequestCode_of_def)
  have va: "setup_Value (Ep0_RxBuffer ?a) = 0x0185" and vb: "setup_Value (Ep0_RxBuffer ?b) = 100"
    by (simp_all add: example_defs)
  have tc: "transmit_completed (example_transmitted s1)" for s1
    by (simp add: transmit_completed_def example_defs reg_defs)
  have tmp: "TempAddressStorage (example_transmitted s1) = TempAddressStorage s1" for s1
    by (simp add: example_defs)
  from pending_address_truncated_and_masked [of ?a example_DeviceBase] ha obtain s1 where
    s1: "Handler_rx example_DeviceBase ?a = Inr s1"
      "unat (TempAddressStorage s1) = unat (setup_Value (Ep0_RxBuffer ?a)) mod 256"
    by blast
  from s1(2) have t: "TempAddressStorage s1 = 0x85"
    by (simp add: va word_unat_eq_iff)
  then have nz: "TempAddressStorage (example_transmitted s1) \<noteq> 0"
    by (simp add: tmp)
  from pending_address_truncated_and_masked [of "example_transmitted s1" example_DeviceBase]
    tc [of s1] nz
  have "DADDR (Handler_tx (example_transmitted s1)) =
      USB_DADDR_EF OR (ucast (TempAddressStorage (example_transmitted s1)) AND USB_DADDR_ADD)"
    by blast
  then have d: "DADDR (Handler_tx (example_transmitted s1)) = 0x85"
    by (simp add: tmp t reg_defs)
  have r: "1 \<le> unat (setup_Value (Ep0_RxBuffer ?b))" "unat (setup_Value (Ep0_RxBuffer ?b)) \<le> 127"
    by (simp_all add: vb)
  from pending_address_truncated_and_masked [of ?b example_DeviceBase] hb r obtain s1' where
    s1': "Handler_rx example_DeviceBase ?b = Inr s1'"
      "\<forall>s2. TempAddressStorage s2 = TempAddressStorage s1' \<and> transmit_completed s2 \<longrightarrow>
            DADDR (Handler_tx s2) = USB_DADDR_EF OR setup_Value (Ep0_RxBuffer ?b) \<and>
            DADDR (Handler_tx s2) AND USB_DADDR_ADD = setup_Value (Ep0_RxBuffer ?b)"
    by blast
  have "DADDR (Handler_tx (example_transmitted s1')) AND USB_DADDR_ADD = 100"
    using s1'(2) tmp [of s1'] tc [of s1'] unfolding vb by blast
  with s1 t d s1'(1) tc ha hb show ?thesis
    by blast
qed

section \<open>SetAddress(0) (C9)\<close>

text \<open>
  C9. A SetAddress request with address 0 is acknowledged with a zero-length response,
  but nothing becomes pending, and the transmit-complete branch, which applies a pending
  address only when it is not zero, does not write the device-address register at the
  completion of the status stage: the register keeps the value it had.
\<close>

theorem SetAddress_zero_acknowledged_not_committed:
  "SETUP_received s SetAddress \<and> setup_Value (Ep0_RxBuffer s) = 0 \<longrightarrow>
     (\<exists>s1. Handler_rx dev s = Inr s1 \<and>
        events_since s s1 =
          [Ep0_ClearCtrRx_call, Ep0_SendData_call [], Ep0_SetRxStatus_call Valid] \<and>
        TempAddressStorage s1 = 0 \<and> DADDR s1 = DADDR s \<and>
        (\<forall>s2. TempAddressStorage s2 = TempAddressStorage s1 \<and> transmit_completed s2 \<longrightarrow>
           DADDR (Handler_tx s2) = DADDR s2 \<and>
           events_since s2 (Handler_tx s2) = [Ep0_ClearCtrTx_call, Ep0_SetRxStatus_call Valid]))"
proof
  assume h: "SETUP_received s SetAddress \<and> setup_Value (Ep0_RxBuffer s) = 0"
  from SetAddress_then_transmit [of s dev] h obtain s1 where
    s1: "Handler_rx dev s = Inr s1" "DADDR s1 = DADDR s"
      "events_since s s1 = [Ep0_ClearCtrRx_call, Ep0_SendData_call [], Ep0_SetRxStatus_call Valid]"
      "TempAddressStorage s1 = 0"
    by auto
  have "DADDR (Handler_tx s2) = DADDR s2 \<and>
        events_since s2 (Handler_tx s2) = [Ep0_ClearCtrTx_call, Ep0_SetRxStatus_call Valid]"
    if "TempAddressStorage s2 = TempAddressStorage s1" "transmit_completed s2" for s2
    using that s1(4)
    by (simp add: Handler_tx_nothing_pending events_since_def prim_defs)
  with s1 show "\<exists>s1. Handler_rx dev s = Inr s1 \<and>
        events_since s s1 =
          [Ep0_ClearCtrRx_call, Ep0_SendData_call [], Ep0_SetRxStatus_call Valid] \<and>
        TempAddressStorage s1 = 0 \<and> DADDR s1 = DADDR s \<and>
        (\<forall>s2. TempAddressStorage s2 = TempAddressStorage s1 \<and> transmit_completed s2 \<longrightarrow>
           DADDR (Handler_tx s2) = DADDR s2 \<and>
           events_since s2 (Handler_tx s2) = [Ep0_ClearCtrTx_call, Ep0_SetRxStatus_call Valid])"
    by blast
qed

theorem SetAddress_zero_acknowledged_not_committed_witness:
  "SETUP_received (example_setup 5 5 0 0) SetAddress \<and>
   setup_Value (Ep0_RxBuffer (example_setup 5 5 0 0)) = 0 \<and>
   DADDR (example_setup 5 5 0 0) = 0x85 \<and>
   (\<exists>s1. Handler_rx example_DeviceBase (example_setup 5 5 0 0) = Inr s1 \<and>
      events_since (example_setup 5 5 0 0) s1 =
        [Ep0_ClearCtrRx_call, Ep0_SendData_call [], Ep0_SetRxStatus_call Valid] \<and>
      transmit_completed (example_transmitted s1) \<and>
      DADDR (Handler_tx (example_transmitted s1)) = 0x85)"
proof -
  let ?a = "example_setup 5 5 0 0"
  have h: "SETUP_received ?a SetAddress" "setup_Value (Ep0_RxBuffer ?a) = 0" "DADDR ?a = 0x85"
    by (simp_all add: SETUP_received_def example_defs reg_defs StandartRequestCode_of_def)
  have tc: "transmit_completed (example_transmitted s1)" for s1
    by (simp add: transmit_completed_def example_defs reg_defs)
  have tmp: "TempAddressStorage (example_transmitted s1) = TempAddressStorage s1"
    "DADDR (example_transmitted s1) = DADDR s1" for s1
    by (simp_all add: example_defs)
  from SetAddress_zero_acknowledged_not_committed [of ?a example_DeviceBase] h obtain s1 where
    s1: "Handler_rx example_DeviceBase ?a = Inr s1"
      "events_since ?a s1 = [Ep0_ClearCtrRx_call, Ep0_SendData_call [], Ep0_SetRxStatus_call Valid]"
      "DADDR s1 = DADDR ?a"
      "\<forall>s2. TempAddressStorage s2 = TempAddressStorage s1 \<and> transmit_completed s2 \<longrightarrow>
           DADDR (Handler_tx s2) = DADDR s2 \<and>
           events_since s2 (Handler_tx s2) = [Ep0_ClearCtrTx_call, Ep0_SetRxStatus_call Valid]"
    by blast
  from s1(4) tc [of s1] tmp [of s1] s1(3) h(3)
  have "DADDR (Handler_tx (example_transmitted s1)) = 0x85"
    by simp
  with h s1 tc show ?thesis
    by blast
qed

section \<open>The deferred address commit (C1)\<close>

text \<open>
  The device-address register does not become the requested address for every SetAddress
  request: a device at address 3 that handles SetAddress(0) and then the completion of the
  status stage still has address 3, because the commit is guarded by a non-zero pending
  address.
\<close>

theorem SetAddress_zero_counterexample:
  "dispatches_SetAddress (example_irq_setup 5 0) \<and>
   setup_Value (irq_RxBuffer (example_irq_setup 5 0)) = 0 \<and>
   completes_transmit example_irq_transmitted \<and>
   DADDR (example_setup 3 0 0 0) = 0x83 \<and>
   observe DADDR (run example_DeviceBase [example_irq_setup 5 0] (example_setup 3 0 0 0)) =
     Inr 0x83 \<and>
   observe DADDR
     (run example_DeviceBase [example_irq_setup 5 0, example_irq_transmitted]
        (example_setup 3 0 0 0)) = Inr 0x83 \<and>
   (0x83 :: uint16_t) AND USB_DADDR_ADD = 3"
  by (simp add: dispatches_SetAddress_def completes_transmit_def routed_to_Ep0_def
      example_irq_setup_def example_irq_transmitted_def example_defs observe_def
      handler_defs prim_defs reg_defs Let_def)

text \<open>
  C1, amended. When a SetAddress request is dispatched on endpoint 0 the device-address
  register is left as it is and the requested address, modulo 256, is stored in
  \<^verbatim>\<open>TempAddressStorage\<close>. When the following transmit-complete is handled, the register
  gets the enable flag and the stored address masked to 7 bits if the stored address is
  not zero (for a requested address from 1 to 127: that address), and is not written if
  it is zero; \<^verbatim>\<open>TempAddressStorage\<close> is zero afterwards. An interrupt that neither
  resets the bus nor handles a transmit-complete on endpoint 0 leaves the register alone.
  Over any sequence of interrupts that starts with nothing pending,
  \<^verbatim>\<open>TempAddressStorage\<close> is non-zero only from the dispatch of a SetAddress request until
  the next transmit-complete handled on endpoint 0.
\<close>

theorem SetAddress_deferred_commit:
  "(SETUP_received s SetAddress \<longrightarrow>
      (\<exists>s1. Handler_rx dev s = Inr s1 \<and> DADDR s1 = DADDR s \<and>
         TempAddressStorage s1 = ucast (setup_Value (Ep0_RxBuffer s)) \<and>
         (\<forall>s2. TempAddressStorage s2 = TempAddressStorage s1 \<and> transmit_completed s2 \<longrightarrow>
            DADDR (Handler_tx s2) =
              (if (ucast (setup_Value (Ep0_RxBuffer s)) :: uint8_t) = 0 then DADDR s2
               else USB_DADDR_EF OR
                 (ucast (ucast (setup_Value (Ep0_RxBuffer s)) :: uint8_t) AND USB_DADDR_ADD)) \<and>
            (1 \<le> unat (setup_Value (Ep0_RxBuffer s)) \<and>
             unat (setup_Value (Ep0_RxBuffer s)) \<le> 127 \<longrightarrow>
               DADDR (Handler_tx s2) = USB_DADDR_EF OR setup_Value (Ep0_RxBuffer s) \<and>
               DADDR (Handler_tx s2) AND USB_DADDR_ADD = setup_Value (Ep0_RxBuffer s)) \<and>
            TempAddressStorage (Handler_tx s2) = 0))) \<and>
   (\<forall>s'. CommonHandler dev (hw_event i s) = Inr s' \<and> \<not> completes_transmit i \<and>
         irq_ISTR i AND USB_ISTR_RESET = 0 \<longrightarrow> DADDR s' = DADDR s) \<and>
   (\<forall>s'. CommonHandler dev (hw_event i s) = Inr s' \<and> completes_transmit i \<longrightarrow>
         TempAddressStorage s' = 0) \<and>
   (\<forall>s'. run dev is s = Inr s' \<and> TempAddressStorage s = 0 \<and> TempAddressStorage s' \<noteq> 0 \<longrightarrow>
         status_stage_pending False is)"
proof -
  let ?v = "setup_Value (Ep0_RxBuffer s)"
  have a: "\<exists>s1. Handler_rx dev s = Inr s1 \<and> DADDR s1 = DADDR s \<and>
         TempAddressStorage s1 = ucast ?v \<and>
         (\<forall>s2. TempAddressStorage s2 = TempAddressStorage s1 \<and> transmit_completed s2 \<longrightarrow>
            DADDR (Handler_tx s2) =
              (if (ucast ?v :: uint8_t) = 0 then DADDR s2
               else USB_DADDR_EF OR (ucast (ucast ?v :: uint8_t) AND USB_DADDR_ADD)) \<and>
            (1 \<le> unat ?v \<and> unat ?v \<le> 127 \<longrightarrow>
               DADDR (Handler_tx s2) = USB_DADDR_EF OR ?v \<and>
               DADDR (Handler_tx s2) AND USB_DADDR_ADD = ?v) \<and>
            TempAddressStorage (Handler_tx s2) = 0)"
    if sa: "SETUP_received s SetAddress"
  proof -
    from SetAddress_then_transmit [OF sa, of dev] obtain s1 where
      s1: "Handler_rx dev s = Inr s1" "DADDR s1 = DADDR s" "TempAddressStorage s1 = ucast ?v"
      by blast
    have "DADDR (Handler_tx s2) =
              (if (ucast ?v :: uint8_t) = 0 then DADDR s2
               else USB_DADDR_EF OR (ucast (ucast ?v :: uint8_t) AND USB_DADDR_ADD)) \<and>
            (1 \<le> unat ?v \<and> unat ?v \<le> 127 \<longrightarrow>
               DADDR (Handler_tx s2) = USB_DADDR_EF OR ?v \<and>
               DADDR (Handler_tx s2) AND USB_DADDR_ADD = ?v) \<and>
            TempAddressStorage (Handler_tx s2) = 0"
      if s2: "TempAddressStorage s2 = TempAddressStorage s1" "transmit_completed s2" for s2
    proof -
      have d: "DADDR (Handler_tx s2) =
              (if (ucast ?v :: uint8_t) = 0 then DADDR s2
               else USB_DADDR_EF OR (ucast (ucast ?v :: uint8_t) AND USB_DADDR_ADD))"
        using s2 s1(3) by (simp add: DADDR_Handler_tx)
      have e: "DADDR (Handler_tx s2) = USB_DADDR_EF OR ?v \<and>
               DADDR (Handler_tx s2) AND USB_DADDR_ADD = ?v"
        if r: "1 \<le> unat ?v" "unat ?v \<le> 127"
        using commit_exact [OF r] by (simp add: d)
      have t: "TempAddressStorage (Handler_tx s2) = 0"
        using s2(2) Handler_tx_frame [of s2] by simp
      from d e t show ?thesis by blast
    qed
    with s1 show ?thesis by blast
  qed
  have b: "DADDR s' = DADDR s"
    if "CommonHandler dev (hw_event i s) = Inr s'" "\<not> completes_transmit i"
      "irq_ISTR i AND USB_ISTR_RESET = 0" for s'
    using that by (rule CommonHandler_frame(2))
  have c: "TempAddressStorage s' = 0"
    if "CommonHandler dev (hw_event i s) = Inr s'" "completes_transmit i" for s'
    using CommonHandler_frame(1) [OF that(1)] that(2) by simp
  have d: "status_stage_pending False is"
    if "run dev is s = Inr s'" "TempAddressStorage s = 0" "TempAddressStorage s' \<noteq> 0" for s'
    using run_pending [OF that(1) _ that(3), of False] that(2) by simp
  show ?thesis
    using a b c d by blast
qed

theorem SetAddress_deferred_commit_witness:
  "SETUP_received (example_setup 0 5 5 0) SetAddress \<and>
   (\<exists>s1. Handler_rx example_DeviceBase (example_setup 0 5 5 0) = Inr s1 \<and>
      DADDR s1 = 0x80 \<and> TempAddressStorage s1 = 5 \<and>
      transmit_completed (example_transmitted s1) \<and>
      DADDR (Handler_tx (example_transmitted s1)) = 0x85 \<and>
      TempAddressStorage (Handler_tx (example_transmitted s1)) = 0) \<and>
   TempAddressStorage (example_setup 0 0 0 0) = 0 \<and>
   observe TempAddressStorage
     (run example_DeviceBase [example_irq_setup 5 5] (example_setup 0 0 0 0)) = Inr 5 \<and>
   status_stage_pending False [example_irq_setup 5 5] \<and>
   observe DADDR
     (run example_DeviceBase [example_irq_setup 5 5, example_irq_transmitted]
        (example_setup 0 0 0 0)) = Inr 0x85"
proof -
  let ?a = "example_setup 0 5 5 0"
  let ?z = "example_setup 0 0 0 0"
  have h: "SETUP_received ?a SetAddress"
    by (simp add: SETUP_received_def example_defs reg_defs StandartRequestCode_of_def)
  have v: "setup_Value (Ep0_RxBuffer ?a) = 5" "DADDR ?a = 0x80"
    by (simp_all add: example_defs)
  have r: "1 \<le> unat (setup_Value (Ep0_RxBuffer ?a))" "unat (setup_Value (Ep0_RxBuffer ?a)) \<le> 127"
    by (simp_all add: v)
  have tc: "transmit_completed (example_transmitted s1)" for s1
    by (simp add: transmit_completed_def example_defs reg_defs)
  have tmp: "TempAddressStorage (example_transmitted s1) = TempAddressStorage s1" for s1
    by (simp add: example_defs)
  note t = SetAddress_deferred_commit [of ?a example_DeviceBase "example_irq_setup 5 5"
      "[example_irq_setup 5 5]"]
  from t h obtain s1 where
    s1: "Handler_rx example_DeviceBase ?a = Inr s1" "DADDR s1 = DADDR ?a"
      "TempAddressStorage s1 = ucast (setup_Value (Ep0_RxBuffer ?a))"
      "\<forall>s2. TempAddressStorage s2 = TempAddressStorage s1 \<and> transmit_completed s2 \<longrightarrow>
            (1 \<le> unat (setup_Value (Ep0_RxBuffer ?a)) \<and>
             unat (setup_Value (Ep0_RxBuffer ?a)) \<le> 127 \<longrightarrow>
               DADDR (Handler_tx s2) = USB_DADDR_EF OR setup_Value (Ep0_RxBuffer ?a)) \<and>
            TempAddressStorage (Handler_tx s2) = 0"
    by blast
  from s1(4) tmp [of s1] tc [of s1] r
  have c: "DADDR (Handler_tx (example_transmitted s1)) = USB_DADDR_EF OR setup_Value (Ep0_RxBuffer ?a)"
    "TempAddressStorage (Handler_tx (example_transmitted s1)) = 0"
    by blast+
  have first: "\<exists>s1. Handler_rx example_DeviceBase ?a = Inr s1 \<and>
      DADDR s1 = 0x80 \<and> TempAddressStorage s1 = 5 \<and>
      transmit_completed (example_transmitted s1) \<and>
      DADDR (Handler_tx (example_transmitted s1)) = 0x85 \<and>
      TempAddressStorage (Handler_tx (example_transmitted s1)) = 0"
    using s1(1,2,3) c tc [of s1] by (auto simp add: v reg_defs)
  have r1: "run example_DeviceBase [example_irq_setup 5 5] ?z =
      Inr (call NVIC_ClearPendingIRQ_call
        (Ep0_SetRxStatus Valid (Ep0_SendData []
          ((Ep0_ClearCtrRx (call Pc7_Toggle_call (hw_event (example_irq_setup 5 5) ?z)))
             \<lparr>TempAddressStorage := 5\<rparr>))))"
    by (simp add: example_irq_setup_def example_defs handler_defs prim_defs reg_defs Let_def)
  have z: "TempAddressStorage ?z = 0"
    by (simp add: example_defs)
  have o1: "observe TempAddressStorage (run example_DeviceBase [example_irq_setup 5 5] ?z) = Inr 5"
    unfolding r1 by (simp add: observe_def prim_defs)
  have nz: "TempAddressStorage
      (call NVIC_ClearPendingIRQ_call
        (Ep0_SetRxStatus Valid (Ep0_SendData []
          ((Ep0_ClearCtrRx (call Pc7_Toggle_call (hw_event (example_irq_setup 5 5) ?z)))
             \<lparr>TempAddressStorage := 5\<rparr>)))) \<noteq> 0"
    by (simp add: prim_defs)
  from SetAddress_deferred_commit [of ?z example_DeviceBase "example_irq_setup 5 5"
      "[example_irq_setup 5 5]"] r1 z nz
  have p: "status_stage_pending False [example_irq_setup 5 5]"
    by blast
  have o2: "observe DADDR
     (run example_DeviceBase [example_irq_setup 5 5, example_irq_transmitted] ?z) = Inr 0x85"
    by (simp add: example_irq_setup_def example_irq_transmitted_def example_defs observe_def
      handler_defs prim_defs reg_defs Let_def)
  from h first z o1 p o2 show ?thesis
    by blast
qed

end
